theory Spec2Isabelle
  imports Main "HOL-Library.Sublist" "HOL-Library.Word"
begin

section \<open>Platform resolver (xplatai.go, lines 20-71 and 325-375)\<close>

text \<open>
  The package constants. \<open>hostOs\<close>, \<open>hostArch\<close> and \<open>HostHardware\<close> are aliases of
  Go's \<open>int\<close> whose named values are numbered by \<open>iota\<close>; a caller of the exported
  functions may pass any integer as a \<open>HostHardware\<close>, so the three types are \<open>int\<close>
  here as well. (The source writes the operating-system and architecture constants with
  a leading underscore, which an Isabelle name cannot have.)
\<close>

definition lcp_VERSION :: string where
  "lcp_VERSION = ''b6209''"

type_synonym hostOs = int

definition OS_WIN :: hostOs where "OS_WIN = 0"
definition OS_MAC :: hostOs where "OS_MAC = 1"
definition OS_UBUNTU :: hostOs where "OS_UBUNTU = 2"

type_synonym hostArch = int

definition ARCH_x64 :: hostArch where "ARCH_x64 = 0"
definition ARCH_ARM :: hostArch where "ARCH_ARM = 1"

type_synonym HostHardware = int

definition HW_CPU :: HostHardware where "HW_CPU = 0"
definition HW_CUDA :: HostHardware where "HW_CUDA = 1"
definition HW_VULKAN :: HostHardware where "HW_VULKAN = 2"
definition HW_RADEON :: HostHardware where "HW_RADEON = 3"
definition HW_NONE :: HostHardware where "HW_NONE = 4"

definition osNames :: "hostOs \<rightharpoonup> string" where
  "osNames = [OS_WIN \<mapsto> ''win'', OS_MAC \<mapsto> ''macos'', OS_UBUNTU \<mapsto> ''ubuntu'']"

definition archNames :: "hostArch \<rightharpoonup> string" where
  "archNames = [ARCH_x64 \<mapsto> ''x64'', ARCH_ARM \<mapsto> ''arm64'']"

definition hwNames :: "HostHardware \<rightharpoonup> string" where
  "hwNames = [HW_CPU \<mapsto> ''cpu'', HW_CUDA \<mapsto> ''cuda-12.4'', HW_VULKAN \<mapsto> ''vulkan'',
              HW_RADEON \<mapsto> ''hip-radeon'', HW_NONE \<mapsto> '''']"

text \<open>Indexing a Go map of strings: a missing key reads as the empty string.\<close>

definition index :: "(int \<rightharpoonup> string) \<Rightarrow> int \<Rightarrow> string" where
  "index m k = (case m k of None \<Rightarrow> '''' | Some v \<Rightarrow> v)"

record hostInfo =
  opSys :: hostOs
  hardware :: HostHardware
  arch :: hostArch

text \<open>The zero value \<open>hostInfo{}\<close> of line 326.\<close>

definition hostInfo_zero :: hostInfo where
  "hostInfo_zero = \<lparr>opSys = 0, hardware = 0, arch = 0\<rparr>"

text \<open>
  Every error of the package is a Go \<open>error\<close> value. The package builds its own with
  \<open>errors.New\<close>; the others are handed up unchanged from the standard library
  (\<open>net/http\<close>, \<open>io\<close>, \<open>encoding/json\<close> and \<open>os\<close>), whose error types differ from the one of
  \<open>errors.New\<close>.
\<close>

datatype error =
    errors_New string
  | http_error string
  | io_error string
  | json_error string
  | os_error string

text \<open>
  \<open>getDownloadUrl\<close>, lines 325-375, in its four steps. \<open>runtime.GOOS\<close> and
  \<open>runtime.GOARCH\<close> are constants of the build; they are arguments here. The \<open>switch\<close>
  statements keep their order, and the third one has no default, as in the source.
\<close>

text \<open>Lines 326-346: the host's operating system and architecture.\<close>

definition detectHost :: "string \<Rightarrow> string \<Rightarrow> error + hostInfo" where
  "detectHost GOOS GOARCH =
    (let host = hostInfo_zero in
     case (if GOOS = ''windows'' then Inr (host\<lparr>opSys := OS_WIN\<rparr>)
           else if GOOS = ''darwin'' then Inr (host\<lparr>opSys := OS_MAC\<rparr>)
           else if GOOS = ''linux'' then Inr (host\<lparr>opSys := OS_UBUNTU\<rparr>)
           else Inl (errors_New ''unsupported operating system'')) of
       Inl e \<Rightarrow> Inl e
     | Inr host \<Rightarrow>
         (if GOARCH = ''amd64'' then Inr (host\<lparr>arch := ARCH_x64\<rparr>)
          else if GOARCH = ''arm64'' then Inr (host\<lparr>arch := ARCH_ARM\<rparr>)
          else Inl (errors_New ''unsupported cpu architecture'')))"

text \<open>Lines 348-363: the accelerator the host is given, from the one requested.\<close>

definition selectHardware :: "hostInfo \<Rightarrow> HostHardware \<Rightarrow> hostInfo" where
  "selectHardware host hw =
    (if opSys host = OS_WIN then
       (if hw = HW_NONE then host\<lparr>hardware := HW_CPU\<rparr> else host\<lparr>hardware := hw\<rparr>)
     else if opSys host = OS_MAC then host\<lparr>hardware := HW_NONE\<rparr>
     else if opSys host = OS_UBUNTU then
       (if hw = HW_VULKAN then host\<lparr>hardware := HW_VULKAN\<rparr> else host\<lparr>hardware := HW_NONE\<rparr>)
     else host)"

text \<open>Lines 365-373: the release's address.\<close>

definition releaseName :: "hostInfo \<Rightarrow> string" where
  "releaseName host =
    (let releaseName = ''https://github.com/ggml-org/llama.cpp/releases/download/'' @
           lcp_VERSION @ ''/llama-'' @ lcp_VERSION @ ''-bin-'' @
           index osNames (opSys host) @ ''-'';
         releaseName = (if hardware host \<noteq> HW_NONE
                        then releaseName @ index hwNames (hardware host) @ ''-''
                        else releaseName)
     in releaseName @ index archNames (arch host) @ ''.zip'')"

definition getDownloadUrl :: "string \<Rightarrow> string \<Rightarrow> HostHardware \<Rightarrow> error + string" where
  "getDownloadUrl GOOS GOARCH hw =
    (case detectHost GOOS GOARCH of
       Inl e \<Rightarrow> Inl e
     | Inr host \<Rightarrow> Inr (releaseName (selectHardware host hw)))"

section \<open>Time, the network and the worker: what the client runs against\<close>

text \<open>
  A \<open>time.Duration\<close> is a signed 64-bit count of nanoseconds. No operation of the
  package can overflow one (the only arithmetic is \<open>time.Second * i\<close> for \<open>i\<close> below 10
  and \<open>99 * time.Minute\<close>), so durations are integers here; instants are integers too,
  nanoseconds on the clock that \<open>time.Now\<close> reads.
\<close>

type_synonym Duration = int

definition Microsecond :: Duration where "Microsecond = 1000"
definition Millisecond :: Duration where "Millisecond = 1000 * Microsecond"
definition Second :: Duration where "Second = 1000 * Millisecond"
definition Minute :: Duration where "Minute = 60 * Second"

text \<open>Go's integer division truncates towards zero (the divisor is never zero here).\<close>

definition quo :: "int \<Rightarrow> int \<Rightarrow> int" where
  "quo a b = (if (a < 0) = (b < 0) then \<bar>a\<bar> div \<bar>b\<bar> else - (\<bar>a\<bar> div \<bar>b\<bar>))"

text \<open>\<open>Duration.Milliseconds\<close> of package \<open>time\<close>: \<open>int64(d) / 1e6\<close>.\<close>

definition Milliseconds :: "Duration \<Rightarrow> int" where
  "Milliseconds d = quo d 1000000"

text \<open>
  What an HTTP call gives back: either a failure, or a response with its status code and
  what \<open>io.ReadAll\<close> will read from its body (the bytes, or a failure); and the time the
  call took. The environment names a failure of the standard library by its message;
  the operations below make the library's error value of it.
\<close>

record response =
  StatusCode :: int
  Body :: "string + string"

record reply =
  took :: nat
  outcome :: "string + response"

record request =
  Method :: string
  URL :: string
  Payload :: string

text \<open>
  The values the client puts into a request's \<open>map[string]any\<close>: a
  \<open>[]map[string]string\<close>, an \<open>int\<close>, a \<open>[]string\<close> or a \<open>string\<close>. A Go map with string keys
  is an association list read with \<open>map_of\<close>.
\<close>

type_synonym message = "(string \<times> string) list"

datatype param =
    MapSlice "message list"
  | IntValue int
  | StringSlice "string list"
  | StringValue string

type_synonym payload = "(string \<times> param) list"

text \<open>
  The values \<open>json.Unmarshal\<close> stores into a \<open>map[string]any\<close>: \<open>nil\<close>, \<open>bool\<close>,
  \<open>float64\<close> (kept as its 64 bits; no code of the package looks into one), \<open>string\<close>,
  \<open>[]any\<close> and \<open>map[string]any\<close>.
\<close>

datatype json =
    JNull
  | JBool bool
  | JNumber "64 word"
  | JString string
  | JArray "json list"
  | JObject "(string \<times> json) list"

text \<open>
  The environment of a run: everything the client calls that is not its own code. The
  worker's answers are indexed by the number of requests of that kind sent before, so
  any behaviour of the worker over time is one such environment. \<open>silent n url\<close> tells
  that the health request number \<open>n\<close> is never answered, neither with a response nor
  with a failure (the worker accepts the connection and says nothing); \<open>head n url\<close> is
  the answer of a request that is answered. \<open>urlError\<close> is the failure of
  \<open>http.NewRequest\<close> on an address it cannot parse; \<open>marshal\<close> and \<open>unmarshal\<close> are
  \<open>json.Marshal\<close> and \<open>json.Unmarshal\<close> into a \<open>map[string]any\<close>; \<open>kill\<close> is what
  \<open>Process.Kill\<close> returns.
\<close>

record env =
  head :: "nat \<Rightarrow> string \<Rightarrow> reply"
  silent :: "nat \<Rightarrow> string \<Rightarrow> bool"
  post :: "nat \<Rightarrow> request \<Rightarrow> reply"
  urlError :: "string \<Rightarrow> string option"
  marshal :: "payload \<Rightarrow> string + string"
  unmarshal :: "string \<Rightarrow> string + (string \<times> json) list"
  kill :: "string option"

text \<open>
  The state outside the handle: the clock, how many requests of each kind were sent, and
  the trace of every effect so far, oldest first.
\<close>

datatype event =
    Slept Duration
  | HeadRequest string
  | PostRequest string string
  | Killed

record world =
  clock :: int
  heads :: nat
  posts :: nat
  trace :: "event list"

text \<open>
  \<open>time.Sleep\<close> returns at once for a duration that is not positive; otherwise the clock
  moves on by the duration (the clock of a test: a real one may move further).
\<close>

definition Sleep :: "Duration \<Rightarrow> world \<Rightarrow> world" where
  "Sleep d w = w\<lparr>clock := clock w + (if d \<le> 0 then 0 else d), trace := trace w @ [Slept d]\<rparr>"

text \<open>\<open>x.client.Head(url)\<close>, when the request is answered.\<close>

definition Head :: "env \<Rightarrow> string \<Rightarrow> world \<Rightarrow> (error + response) \<times> world" where
  "Head E url w =
    (let r = head E (heads w) url
     in (map_sum http_error id (outcome r),
         w\<lparr>clock := clock w + int (took r), heads := Suc (heads w),
           trace := trace w @ [HeadRequest url]\<rparr>))"

text \<open>
  The client of line 87 is \<open>&http.Client{}\<close>, which sets no time-out: a call of
  \<open>x.client.Head\<close> whose request is never answered does not return, and the method
  that made it does not either. \<open>unanswered\<close> is the test for that, in the world the
  request is sent in; \<open>stuck\<close> is the world the caller is then left in, with the request
  sent. A call ends by returning a value or by never returning.
\<close>

definition unanswered :: "env \<Rightarrow> string \<Rightarrow> world \<Rightarrow> bool" where
  "unanswered E url w = silent E (heads w) url"

definition stuck :: "string \<Rightarrow> world \<Rightarrow> world" where
  "stuck url w = w\<lparr>heads := Suc (heads w), trace := trace w @ [HeadRequest url]\<rparr>"

datatype 'a ending = Returns 'a | Hangs

text \<open>\<open>http.NewRequest(method, url, body)\<close>.\<close>

definition NewRequest :: "env \<Rightarrow> string \<Rightarrow> string \<Rightarrow> string \<Rightarrow> error + request" where
  "NewRequest E method url body =
    (case urlError E url of
       Some msg \<Rightarrow> Inl (http_error msg)
     | None \<Rightarrow> Inr \<lparr>Method = method, URL = url, Payload = body\<rparr>)"

text \<open>\<open>x.client.Do(req)\<close>; every request the package sends this way is a POST.\<close>

definition Do :: "env \<Rightarrow> request \<Rightarrow> world \<Rightarrow> (error + response) \<times> world" where
  "Do E req w =
    (let r = post E (posts w) req
     in (map_sum http_error id (outcome r),
         w\<lparr>clock := clock w + int (took r), posts := Suc (posts w),
           trace := trace w @ [PostRequest (URL req) (Payload req)]\<rparr>))"

text \<open>\<open>io.ReadAll(resp.Body)\<close>, \<open>json.Marshal\<close> and \<open>json.Unmarshal\<close> into a map.\<close>

definition ReadAll :: "string + string \<Rightarrow> error + string" where
  "ReadAll body = map_sum io_error id body"

definition Marshal :: "env \<Rightarrow> payload \<Rightarrow> error + string" where
  "Marshal E data = map_sum json_error id (marshal E data)"

definition Unmarshal :: "env \<Rightarrow> string \<Rightarrow> error + (string \<times> json) list" where
  "Unmarshal E body = map_sum json_error id (unmarshal E body)"

section \<open>The client handle (lines 73-78, 119-297)\<close>

text \<open>
  The fields of \<open>XpltAI\<close> that the package reads or writes after \<open>New\<close>: \<open>proc\<close> and
  \<open>client\<close> are the handles of the process and of the HTTP client, which stand in the
  environment here.
\<close>

record XpltAI =
  port :: string
  isConn :: bool

text \<open>
  Lines 85-88 of \<open>New\<close>: the handle as every \<open>return\<close> of \<open>New\<close> hands it out, with the
  port it was given and \<open>isConn\<close> at its zero value.
\<close>

definition newHandle :: "string \<Rightarrow> XpltAI" where
  "newHandle p = \<lparr>port = p, isConn = False\<rparr>"

definition healthURL :: "XpltAI \<Rightarrow> string" where
  "healthURL x = ''http://127.0.0.1:'' @ port x @ ''/health''"

text \<open>The test \<open>err == nil && resp.StatusCode < 500\<close> of lines 132, 150 and 239.\<close>

definition healthy :: "'e + response \<Rightarrow> bool" where
  "healthy r = (case r of Inl err \<Rightarrow> False | Inr resp \<Rightarrow> StatusCode resp < 500)"

text \<open>\<open>Close\<close>, lines 119-121, on a handle whose process was started.\<close>

definition Close :: "env \<Rightarrow> XpltAI \<Rightarrow> world \<Rightarrow> error option \<times> XpltAI \<times> world" where
  "Close E x w = (map_option os_error (kill E), x, w\<lparr>trace := trace w @ [Killed]\<rparr>)"

subsection \<open>\<open>WaitUntilLoaded\<close>, lines 123-138\<close>

text \<open>Lines 124-126: the time-out the loop runs with.\<close>

definition effectiveTimeout :: "Duration \<Rightarrow> Duration" where
  "effectiveTimeout timeout = (if Milliseconds timeout \<le> 0 then 99 * Minute else timeout)"

text \<open>
  Lines 130-137: the loop, from the world it is entered in. \<open>None\<close> is the \<open>nil\<close>
  error. The deadline is looked at between the requests only, so the loop hangs at a
  request that is never answered. Each round moves the clock by a second at least,
  which is why the loop ends otherwise.
\<close>

function pollHealth ::
  "env \<Rightarrow> XpltAI \<Rightarrow> int \<Rightarrow> world \<Rightarrow> error option ending \<times> world" where
  "pollHealth E x timeoutTime w =
    (if clock w < timeoutTime then
       (if unanswered E (healthURL x) w then (Hangs, stuck (healthURL x) w)
        else
          (let (r, w1) = Head E (healthURL x) w
           in if healthy r then (Returns None, w1)
              else pollHealth E x timeoutTime (Sleep (Second * 1) w1)))
     else (Returns (Some (errors_New ''time out'')), w))"
  by pat_completeness auto
termination
  by (relation "measure (\<lambda>(E, x, timeoutTime, w). nat (timeoutTime - clock w))")
     (auto simp: Head_def Sleep_def Second_def Millisecond_def Microsecond_def Let_def)

declare pollHealth.simps [simp del]

definition WaitUntilLoaded ::
  "env \<Rightarrow> XpltAI \<Rightarrow> world \<Rightarrow> Duration \<Rightarrow> error option ending \<times> world" where
  "WaitUntilLoaded E x w timeout =
    (let timeout = effectiveTimeout timeout;
         timeoutTime = clock w + timeout
     in pollHealth E x timeoutTime w)"

subsection \<open>The first-call readiness loop, lines 145-158 and 234-247\<close>

text \<open>
  The loop \<open>for i := range 10\<close>, from round \<open>i\<close> on. \<open>Chat\<close> and \<open>Complete\<close> hold the same
  text of it. It ends in one of three ways: by \<open>break\<close> (\<open>None\<close>: go on with the call),
  by the \<open>return\<close> of round 9 (the error), or by running out of rounds. The two methods
  are followed on the runs in which each of their requests is answered, by a response
  or by a failure.
\<close>

function awaitRounds :: "env \<Rightarrow> XpltAI \<Rightarrow> nat \<Rightarrow> world \<Rightarrow> error option \<times> world" where
  "awaitRounds E x i w =
    (if i < 10 then
       (let w1 = Sleep (Second * int i) w;
            (r, w2) = Head E (healthURL x) w1
        in if healthy r then (None, w2)
           else if i = 9 then (Some (errors_New ''timed out while waiting for llama.cpp''), w2)
           else awaitRounds E x (Suc i) w2)
     else (None, w))"
  by pat_completeness auto
termination
  by (relation "measure (\<lambda>(E, x, i, w). 10 - i)") auto

declare awaitRounds.simps [simp del]

definition awaitWorker :: "env \<Rightarrow> XpltAI \<Rightarrow> world \<Rightarrow> error option \<times> world" where
  "awaitWorker E x w = (if \<not> isConn x then awaitRounds E x 0 w else (None, w))"

subsection \<open>Sending the request, lines 168-187 and 257-276\<close>

text \<open>
  \<open>json.Marshal\<close>, \<open>http.NewRequest\<close>, \<open>x.client.Do\<close> and \<open>io.ReadAll\<close>, each with its
  early return; the same text in \<open>Chat\<close> and \<open>Complete\<close> but for the address.
\<close>

definition postJSON :: "env \<Rightarrow> string \<Rightarrow> payload \<Rightarrow> world \<Rightarrow> (error + string) \<times> world" where
  "postJSON E url data w =
    (case Marshal E data of
       Inl err \<Rightarrow> (Inl err, w)
     | Inr b \<Rightarrow>
    (case NewRequest E ''POST'' url b of
       Inl err \<Rightarrow> (Inl err, w)
     | Inr req \<Rightarrow>
    (case Do E req w of
       (Inl err, w1) \<Rightarrow> (Inl err, w1)
     | (Inr resp, w1) \<Rightarrow>
    (case ReadAll (Body resp) of
       Inl err \<Rightarrow> (Inl err, w1)
     | Inr body \<Rightarrow> (Inr body, w1)))))"

subsection \<open>\<open>strings.TrimSpace\<close>\<close>

text \<open>
  A Go string is a sequence of bytes, and so is a \<open>string\<close> here. \<open>strings.TrimSpace\<close>
  removes the leading and the trailing white space, as Unicode defines it, of a string
  read as UTF-8. The white-space characters are U+0009 to U+000D, U+0020, U+0085, U+00A0,
  U+1680, U+2000 to U+200A, U+2028, U+2029, U+202F, U+205F and U+3000; \<open>whiteSpace\<close> lists
  their encodings.
\<close>

definition whiteSpace :: "string list" where
  "whiteSpace =
     map (\<lambda>c. [c]) [CHR 0x09, CHR 0x0A, CHR 0x0B, CHR 0x0C, CHR 0x0D, CHR 0x20] @
     [[CHR 0xC2, CHR 0x85], [CHR 0xC2, CHR 0xA0], [CHR 0xE1, CHR 0x9A, CHR 0x80]] @
     map (\<lambda>c. [CHR 0xE2, CHR 0x80, c])
       [CHR 0x80, CHR 0x81, CHR 0x82, CHR 0x83, CHR 0x84, CHR 0x85, CHR 0x86, CHR 0x87,
        CHR 0x88, CHR 0x89, CHR 0x8A, CHR 0xA8, CHR 0xA9, CHR 0xAF] @
     [[CHR 0xE2, CHR 0x81, CHR 0x9F], [CHR 0xE3, CHR 0x80, CHR 0x80]]"

function dropLeading :: "string list \<Rightarrow> string \<Rightarrow> string" where
  "dropLeading table s =
    (case find (\<lambda>e. e \<noteq> [] \<and> prefix e s) table of
       None \<Rightarrow> s
     | Some e \<Rightarrow> dropLeading table (drop (length e) s))"
  by pat_completeness auto
termination
proof (relation "measure (\<lambda>(table, s). length s)")
  fix table :: "string list" and s e :: string
  assume "find (\<lambda>e. e \<noteq> [] \<and> prefix e s) table = Some e"
  then have "e \<noteq> []" and "prefix e s"
    by (auto simp: find_Some_iff)
  then have "0 < length e" and "length e \<le> length s"
    by (auto simp: prefix_length_le)
  then have "length s - length e < length s"
    by arith
  then show "((table, drop (length e) s), (table, s)) \<in> measure (\<lambda>(table, s). length s)"
    by simp
qed simp

definition TrimSpace :: "string \<Rightarrow> string" where
  "TrimSpace s = rev (dropLeading (map rev whiteSpace) (rev (dropLeading whiteSpace s)))"

subsection \<open>\<open>Chat\<close>, lines 140-227\<close>

definition chatURL :: "XpltAI \<Rightarrow> string" where
  "chatURL x = ''http://127.0.0.1:'' @ port x @ ''/v1/chat/completions''"

text \<open>Lines 160-166.\<close>

definition chatData :: "message list \<Rightarrow> int \<Rightarrow> payload" where
  "chatData messages maxTokens =
     [(''messages'', MapSlice messages),
      (''max_tokens'', IntValue maxTokens),
      (''stop'', StringSlice [''<|''])]"

text \<open>
  Lines 201-223: the four type assertions and the length test. An assertion fails on a
  key that is missing as on a value of another type.
\<close>

definition chatContent :: "(string \<times> json) list \<Rightarrow> error + string" where
  "chatContent jsonData =
    (case map_of jsonData ''choices'' of
       Some (JArray choices) \<Rightarrow>
         (if length choices = 0
          then Inl (errors_New ''json parsing failure, field choices is empty'')
          else (case choices ! 0 of
                  JObject choice \<Rightarrow>
                    (case map_of choice ''message'' of
                       Some (JObject message) \<Rightarrow>
                         (case map_of message ''content'' of
                            Some (JString content) \<Rightarrow> Inr content
                          | _ \<Rightarrow> Inl (errors_New ''json parsing failure, missing content field''))
                     | _ \<Rightarrow> Inl (errors_New ''json parsing failure, missing message field''))
                | _ \<Rightarrow> Inl (errors_New ''json parsing failure, failed to get choice'')))
     | _ \<Rightarrow> Inl (errors_New ''json parsing failure, missing choices field''))"

text \<open>
  The call returns its result, the handle (whose \<open>isConn\<close> it may have set) and the
  world. On an error the Go function returns the empty string beside it.
\<close>

definition Chat ::
  "env \<Rightarrow> XpltAI \<Rightarrow> world \<Rightarrow> message list \<Rightarrow> int \<Rightarrow> (error + string) \<times> XpltAI \<times> world" where
  "Chat E x w messages maxTokens =
    (let maxTokens = (if maxTokens \<le> 0 then 150 else maxTokens) in
     case awaitWorker E x w of
       (Some err, w1) \<Rightarrow> (Inl err, x, w1)
     | (None, w1) \<Rightarrow>
    (let data = chatData messages maxTokens in
     case postJSON E (chatURL x) data w1 of
       (Inl err, w2) \<Rightarrow> (Inl err, x, w2)
     | (Inr body, w2) \<Rightarrow>
         if length body > 0 \<and> body ! 0 \<noteq> CHR ''{'' then (Inl (errors_New body), x, w2)
         else (case Unmarshal E body of
                 Inl err \<Rightarrow> (Inl err, x, w2)
               | Inr jsonData \<Rightarrow>
                   (case chatContent jsonData of
                      Inl err \<Rightarrow> (Inl err, x, w2)
                    | Inr content \<Rightarrow> (Inr (TrimSpace content), x\<lparr>isConn := True\<rparr>, w2)))))"

subsection \<open>\<open>Complete\<close>, lines 229-297\<close>

definition completionURL :: "XpltAI \<Rightarrow> string" where
  "completionURL x = ''http://127.0.0.1:'' @ port x @ ''/completion''"

text \<open>Lines 249-255.\<close>

definition completionData :: "string \<Rightarrow> int \<Rightarrow> payload" where
  "completionData prompt maxTokens =
     [(''prompt'', StringValue prompt),
      (''n_predict'', IntValue maxTokens),
      (''stop'', StringSlice [''<|''])]"

text \<open>Lines 290-293.\<close>

definition completionContent :: "(string \<times> json) list \<Rightarrow> error + string" where
  "completionContent jsonData =
    (case map_of jsonData ''content'' of
       Some (JString content) \<Rightarrow> Inr content
     | _ \<Rightarrow> Inl (errors_New ''json parsing failure, missing content field''))"

definition Complete ::
  "env \<Rightarrow> XpltAI \<Rightarrow> world \<Rightarrow> string \<Rightarrow> int \<Rightarrow> (error + string) \<times> XpltAI \<times> world" where
  "Complete E x w prompt maxTokens =
    (let maxTokens = (if maxTokens \<le> 0 then 150 else maxTokens) in
     case awaitWorker E x w of
       (Some err, w1) \<Rightarrow> (Inl err, x, w1)
     | (None, w1) \<Rightarrow>
    (let data = completionData prompt maxTokens in
     case postJSON E (completionURL x) data w1 of
       (Inl err, w2) \<Rightarrow> (Inl err, x, w2)
     | (Inr body, w2) \<Rightarrow>
         if length body > 0 \<and> body ! 0 \<noteq> CHR ''{'' then (Inl (errors_New body), x, w2)
         else (case Unmarshal E body of
                 Inl err \<Rightarrow> (Inl err, x, w2)
               | Inr jsonData \<Rightarrow>
                   (case completionContent jsonData of
                      Inl err \<Rightarrow> (Inl err, x, w2)
                    | Inr content \<Rightarrow> (Inr (TrimSpace content), x\<lparr>isConn := True\<rparr>, w2)))))"

section \<open>Notions the properties are stated with\<close>

text \<open>
  A handle lives through a sequence of calls of its methods. \<open>perform\<close> runs one call
  and keeps the handle and the world it leaves; \<open>fold (perform E)\<close> runs a sequence.
\<close>

datatype call =
    CallWaitUntilLoaded Duration
  | CallChat "message list" int
  | CallComplete string int
  | CallClose

fun perform :: "env \<Rightarrow> call \<Rightarrow> XpltAI \<times> world \<Rightarrow> XpltAI \<times> world" where
  "perform E (CallWaitUntilLoaded timeout) (x, w) = (x, snd (WaitUntilLoaded E x w timeout))"
| "perform E (CallChat messages maxTokens) (x, w) = snd (Chat E x w messages maxTokens)"
| "perform E (CallComplete prompt maxTokens) (x, w) = snd (Complete E x w prompt maxTokens)"
| "perform E CallClose (x, w) = snd (Close E x w)"

text \<open>
  The instant at which a polling loop entered in world \<open>w\<close> sends its \<open>k\<close>-th request
  (counted from 0) when no earlier one was healthy: the requests are a second apart,
  and each takes the time its reply took.
\<close>

fun pollInstant :: "env \<Rightarrow> XpltAI \<Rightarrow> world \<Rightarrow> nat \<Rightarrow> int" where
  "pollInstant E x w 0 = clock w"
| "pollInstant E x w (Suc k) =
     pollInstant E x w k + int (took (head E (heads w + k) (healthURL x))) + Second"

text \<open>
  What becomes of the \<open>k\<close>-th request of such a loop: it is never answered, it is
  answered by a healthy worker, or it is answered otherwise.
\<close>

definition pollMute :: "env \<Rightarrow> XpltAI \<Rightarrow> world \<Rightarrow> nat \<Rightarrow> bool" where
  "pollMute E x w k = silent E (heads w + k) (healthURL x)"

definition pollUp :: "env \<Rightarrow> XpltAI \<Rightarrow> world \<Rightarrow> nat \<Rightarrow> bool" where
  "pollUp E x w k =
    (\<not> pollMute E x w k \<and> healthy (outcome (head E (heads w + k) (healthURL x))))"

definition pollDown :: "env \<Rightarrow> XpltAI \<Rightarrow> world \<Rightarrow> nat \<Rightarrow> bool" where
  "pollDown E x w k =
    (\<not> pollMute E x w k \<and> \<not> healthy (outcome (head E (heads w + k) (healthURL x))))"

text \<open>Some poll sent less than \<open>d\<close> after the loop was entered gets a healthy reply.\<close>

definition healthyWithin :: "env \<Rightarrow> XpltAI \<Rightarrow> world \<Rightarrow> Duration \<Rightarrow> bool" where
  "healthyWithin E x w d = (\<exists>k. pollInstant E x w k < clock w + d \<and> pollUp E x w k)"

text \<open>
  Some poll sent less than \<open>d\<close> after the loop was entered is never answered, the polls
  before it having been answered, and not by a healthy worker.
\<close>

definition muteWithin :: "env \<Rightarrow> XpltAI \<Rightarrow> world \<Rightarrow> Duration \<Rightarrow> bool" where
  "muteWithin E x w d =
    (\<exists>k. pollInstant E x w k < clock w + d \<and> pollMute E x w k \<and> (\<forall>j<k. pollDown E x w j))"

text \<open>
  The deadline as the specification words it: the given time-out, or 99 minutes when
  the time-out is not positive. (The code's is \<open>effectiveTimeout\<close>.)
\<close>

definition statedTimeout :: "Duration \<Rightarrow> Duration" where
  "statedTimeout timeout = (if timeout \<le> 0 then 99 * Minute else timeout)"

text \<open>The events of rounds \<open>i\<close> to \<open>j - 1\<close> of the readiness loop.\<close>

definition rounds :: "XpltAI \<Rightarrow> nat \<Rightarrow> nat \<Rightarrow> event list" where
  "rounds x i j = concat (map (\<lambda>k. [Slept (Second * int k), HeadRequest (healthURL x)]) [i..<j])"

fun slept :: "event \<Rightarrow> Duration" where
  "slept (Slept d) = d"
| "slept e = 0"

fun isPost :: "event \<Rightarrow> bool" where
  "isPost (PostRequest url body) = True"
| "isPost e = False"

text \<open>
  Lines 145-187 (and 234-276) as one step: the readiness loop, then the request. Its
  result is the body that the call reads, or the error it returns early with.
\<close>

definition exchange ::
  "env \<Rightarrow> XpltAI \<Rightarrow> world \<Rightarrow> string \<Rightarrow> payload \<Rightarrow> (error + string) \<times> world" where
  "exchange E x w url data =
    (case awaitWorker E x w of
       (Some err, w1) \<Rightarrow> (Inl err, w1)
     | (None, w1) \<Rightarrow> postJSON E url data w1)"

text \<open>The world after a round of a loop whose request found no healthy worker.\<close>

definition pollRound :: "env \<Rightarrow> XpltAI \<Rightarrow> world \<Rightarrow> world" where
  "pollRound E x w = Sleep (Second * 1) (snd (Head E (healthURL x) w))"

definition awaitRound :: "env \<Rightarrow> XpltAI \<Rightarrow> nat \<Rightarrow> world \<Rightarrow> world" where
  "awaitRound E x i w = snd (Head E (healthURL x) (Sleep (Second * int i) w))"

subsection \<open>Example runs\<close>

text \<open>
  A worker that refuses connections for its first \<open>k\<close> health requests and answers
  200 from then on. The example environment answers every request, and at once; every
  POST gets the given body, which the example decoder reads as the given document (and
  nothing else as JSON); the example encoder only shows the token limit of a payload.
  \<open>muteFrom k E\<close> is \<open>E\<close> with a worker that answers \<open>k\<close> health requests and no further
  one.
\<close>

definition upAfter :: "nat \<Rightarrow> nat \<Rightarrow> string + response" where
  "upAfter k n =
    (if n < k then Inl ''connection refused'' else Inr \<lparr>StatusCode = 200, Body = Inr []\<rparr>)"

definition exampleEnv :: "(nat \<Rightarrow> string + response) \<Rightarrow> string \<Rightarrow> (string \<times> json) list \<Rightarrow> env" where
  "exampleEnv health body doc =
    \<lparr>head = (\<lambda>n url. \<lparr>took = 0, outcome = health n\<rparr>),
     silent = (\<lambda>n url. False),
     post = (\<lambda>n req. \<lparr>took = 0, outcome = Inr \<lparr>StatusCode = 200, Body = Inr body\<rparr>\<rparr>),
     urlError = (\<lambda>url. None),
     marshal = (\<lambda>data. Inr (if IntValue 150 \<in> snd ` set data then ''limit=150'' else ''limit'')),
     unmarshal = (\<lambda>b. if b = body \<and> take 1 b = ''{'' then Inr doc
                      else Inl ''unexpected end of JSON input''),
     kill = None\<rparr>"

definition muteFrom :: "nat \<Rightarrow> env \<Rightarrow> env" where
  "muteFrom k E = E\<lparr>silent := (\<lambda>n url. k \<le> n)\<rparr>"

definition handle0 :: XpltAI where
  "handle0 = newHandle ''8080''"

definition world0 :: world where
  "world0 = \<lparr>clock = 0, heads = 0, posts = 0, trace = []\<rparr>"

definition chatReply :: string where
  \<open>chatReply = ''{"choices":[{"message":{"content":"  hi there  "}}]}''\<close>

definition chatDocument :: "(string \<times> json) list" where
  "chatDocument =
     [(''choices'', JArray [JObject [(''message'', JObject [(''content'', JString ''  hi there  '')])]])]"

definition completionReply :: string where
  \<open>completionReply = ''{"content":" 4 "}''\<close>

definition completionDocument :: "(string \<times> json) list" where
  "completionDocument = [(''content'', JString '' 4 '')]"

definition emptyChoicesReply :: string where
  \<open>emptyChoicesReply = ''{"choices":[]}''\<close>

definition noChoicesReply :: string where
  \<open>noChoicesReply = ''{"error":"busy"}''\<close>

definition badChoiceReply :: string where
  \<open>badChoiceReply = ''{"choices":["stop"]}''\<close>

definition noMessageReply :: string where
  \<open>noMessageReply = ''{"choices":[{"index":null}]}''\<close>

definition noContentReply :: string where
  \<open>noContentReply = ''{"choices":[{"message":{"content":null}}]}''\<close>

definition messages0 :: "message list" where
  "messages0 = [[(''role'', ''user''), (''content'', ''hello'')]]"

section \<open>Properties\<close>

subsection \<open>The platform resolver\<close>

lemmas host_consts = OS_WIN_def OS_MAC_def OS_UBUNTU_def ARCH_x64_def ARCH_ARM_def
  HW_CPU_def HW_CUDA_def HW_VULKAN_def HW_RADEON_def HW_NONE_def

lemmas resolver_defs = getDownloadUrl_def detectHost_def selectHardware_def releaseName_def
  hostInfo_zero_def index_def osNames_def archNames_def hwNames_def lcp_VERSION_def Let_def

lemma unsupported_os:
  "GOOS \<notin> {''windows'', ''darwin'', ''linux''} \<Longrightarrow>
     getDownloadUrl GOOS GOARCH hw = Inl (errors_New ''unsupported operating system'')"
  by (simp add: getDownloadUrl_def detectHost_def Let_def)

lemma unsupported_arch:
  "GOOS \<in> {''windows'', ''darwin'', ''linux''} \<Longrightarrow> GOARCH \<notin> {''amd64'', ''arm64''} \<Longrightarrow>
     getDownloadUrl GOOS GOARCH hw = Inl (errors_New ''unsupported cpu architecture'')"
  apply (simp only: insert_iff empty_iff)
  apply (elim disjE FalseE)
  apply (simp_all add: getDownloadUrl_def detectHost_def Let_def)
  done

lemma supported_host:
  "GOOS \<in> {''windows'', ''darwin'', ''linux''} \<Longrightarrow> GOARCH \<in> {''amd64'', ''arm64''} \<Longrightarrow>
     detectHost GOOS GOARCH =
       Inr \<lparr>opSys = (if GOOS = ''windows'' then OS_WIN
                     else if GOOS = ''darwin'' then OS_MAC else OS_UBUNTU),
            hardware = 0,
            arch = (if GOARCH = ''amd64'' then ARCH_x64 else ARCH_ARM)\<rparr>"
  apply (simp only: insert_iff empty_iff)
  apply (elim disjE FalseE)
  apply (simp_all add: detectHost_def hostInfo_zero_def Let_def)
  done

lemma supported_url:
  assumes "GOOS \<in> {''windows'', ''darwin'', ''linux''}" and "GOARCH \<in> {''amd64'', ''arm64''}"
    and "hw \<in> {HW_CPU, HW_CUDA, HW_VULKAN, HW_RADEON, HW_NONE}"
    and "detectHost GOOS GOARCH = Inr host"
  shows "(let os = (if GOOS = ''windows'' then ''win''
                   else if GOOS = ''darwin'' then ''macos'' else ''ubuntu'');
              ar = (if GOARCH = ''amd64'' then ''x64'' else ''arm64'');
              a = hardware (selectHardware host hw);
              acc = (if a = HW_NONE then ''''
                     else (if a = HW_CPU then ''cpu'' else if a = HW_CUDA then ''cuda-12.4''
                           else if a = HW_VULKAN then ''vulkan'' else ''hip-radeon'') @ ''-'')
          in getDownloadUrl GOOS GOARCH hw =
               Inr (''https://github.com/ggml-org/llama.cpp/releases/download'' @ ''/'' @
                    lcp_VERSION @ ''/llama-'' @ lcp_VERSION @ ''-bin-'' @
                    os @ ''-'' @ acc @ ar @ ''.zip''))"
  using assms
  apply (simp only: insert_iff empty_iff)
  apply (elim disjE FalseE)
  apply (simp_all add: resolver_defs host_consts)
  apply auto
  done

text \<open>
  C6. \<open>getDownloadUrl\<close> is a function of the operating system, the architecture and the
  requested accelerator alone (it reads nothing else, so it is deterministic). An
  operating system other than windows, darwin and linux fails with the
  unsupported-platform error of the operating system, and on a supported one an
  architecture other than amd64 and arm64 fails with that of the architecture. On a
  supported pair, for each of the five accelerators, the result is
  \<open><release-base>/<version>/llama-<version>-bin-<os>-[<accelerator>-]<arch>.zip\<close>: the
  tag of the operating system, then the tag of the accelerator the host was given
  followed by a dash, present exactly when that accelerator is not \<open>HW_NONE\<close>, then the
  tag of the architecture.
\<close>

theorem getDownloadUrl_template:
  "(GOOS \<notin> {''windows'', ''darwin'', ''linux''} \<longrightarrow>
      getDownloadUrl GOOS GOARCH hw = Inl (errors_New ''unsupported operating system'')) \<and>
   (GOOS \<in> {''windows'', ''darwin'', ''linux''} \<and> GOARCH \<notin> {''amd64'', ''arm64''} \<longrightarrow>
      getDownloadUrl GOOS GOARCH hw = Inl (errors_New ''unsupported cpu architecture'')) \<and>
   (GOOS \<in> {''windows'', ''darwin'', ''linux''} \<and> GOARCH \<in> {''amd64'', ''arm64''} \<and>
    hw \<in> {HW_CPU, HW_CUDA, HW_VULKAN, HW_RADEON, HW_NONE} \<longrightarrow>
      (\<exists>host. detectHost GOOS GOARCH = Inr host \<and>
        (let os = (if GOOS = ''windows'' then ''win''
                   else if GOOS = ''darwin'' then ''macos'' else ''ubuntu'');
             ar = (if GOARCH = ''amd64'' then ''x64'' else ''arm64'');
             a = hardware (selectHardware host hw);
             acc = (if a = HW_NONE then ''''
                    else (if a = HW_CPU then ''cpu'' else if a = HW_CUDA then ''cuda-12.4''
                          else if a = HW_VULKAN then ''vulkan'' else ''hip-radeon'') @ ''-'')
         in getDownloadUrl GOOS GOARCH hw =
              Inr (''https://github.com/ggml-org/llama.cpp/releases/download'' @ ''/'' @
                   lcp_VERSION @ ''/llama-'' @ lcp_VERSION @ ''-bin-'' @
                   os @ ''-'' @ acc @ ar @ ''.zip''))))"
proof (intro conjI impI)
  assume "GOOS \<notin> {''windows'', ''darwin'', ''linux''}"
  then show "getDownloadUrl GOOS GOARCH hw = Inl (errors_New ''unsupported operating system'')"
    by (rule unsupported_os)
next
  assume "GOOS \<in> {''windows'', ''darwin'', ''linux''} \<and> GOARCH \<notin> {''amd64'', ''arm64''}"
  then show "getDownloadUrl GOOS GOARCH hw = Inl (errors_New ''unsupported cpu architecture'')"
    using unsupported_arch [of GOOS GOARCH hw] by blast
next
  assume a: "GOOS \<in> {''windows'', ''darwin'', ''linux''} \<and> GOARCH \<in> {''amd64'', ''arm64''} \<and>
    hw \<in> {HW_CPU, HW_CUDA, HW_VULKAN, HW_RADEON, HW_NONE}"
  then obtain host where h: "detectHost GOOS GOARCH = Inr host"
    using supported_host [of GOOS GOARCH] by blast
  from a h show "\<exists>host. detectHost GOOS GOARCH = Inr host \<and>
        (let os = (if GOOS = ''windows'' then ''win''
                   else if GOOS = ''darwin'' then ''macos'' else ''ubuntu'');
             ar = (if GOARCH = ''amd64'' then ''x64'' else ''arm64'');
             a = hardware (selectHardware host hw);
             acc = (if a = HW_NONE then ''''
                    else (if a = HW_CPU then ''cpu'' else if a = HW_CUDA then ''cuda-12.4''
                          else if a = HW_VULKAN then ''vulkan'' else ''hip-radeon'') @ ''-'')
         in getDownloadUrl GOOS GOARCH hw =
              Inr (''https://github.com/ggml-org/llama.cpp/releases/download'' @ ''/'' @
                   lcp_VERSION @ ''/llama-'' @ lcp_VERSION @ ''-bin-'' @
                   os @ ''-'' @ acc @ ar @ ''.zip''))"
    by (intro exI [of _ host] conjI supported_url) blast+
qed

theorem getDownloadUrl_template_witness:
  "getDownloadUrl ''plan9'' ''amd64'' HW_CPU =
     Inl (errors_New ''unsupported operating system'') \<and>
   getDownloadUrl ''linux'' ''riscv64'' HW_CPU =
     Inl (errors_New ''unsupported cpu architecture'') \<and>
   getDownloadUrl ''windows'' ''amd64'' HW_CUDA =
     Inr ''https://github.com/ggml-org/llama.cpp/releases/download/b6209/llama-b6209-bin-win-cuda-12.4-x64.zip'' \<and>
   getDownloadUrl ''darwin'' ''arm64'' HW_CUDA =
     Inr ''https://github.com/ggml-org/llama.cpp/releases/download/b6209/llama-b6209-bin-macos-arm64.zip''"
  using getDownloadUrl_template [of "''plan9''" "''amd64''" HW_CPU]
    getDownloadUrl_template [of "''linux''" "''riscv64''" HW_CPU]
    getDownloadUrl_template [of "''windows''" "''amd64''" HW_CUDA]
    getDownloadUrl_template [of "''darwin''" "''arm64''" HW_CUDA]
  by (simp add: detectHost_def selectHardware_def hostInfo_zero_def host_consts lcp_VERSION_def)

text \<open>
  C7. On macOS the requested accelerator is ignored: every request resolves as
  \<open>HW_NONE\<close> does. On Linux every request but Vulkan resolves as \<open>HW_NONE\<close> does, and
  Vulkan is honoured: the host is given it, and the address differs from that of
  \<open>HW_NONE\<close>. On Windows every request but \<open>HW_NONE\<close> is honoured: the host is given the
  accelerator asked for, two different accelerators resolve to two different addresses,
  and \<open>HW_NONE\<close> resolves as \<open>HW_CPU\<close> does. All of it for every architecture (on an
  unsupported one both sides are the same error).
\<close>

theorem accelerator_normalization:
  "getDownloadUrl ''darwin'' GOARCH a = getDownloadUrl ''darwin'' GOARCH HW_NONE \<and>
   (a \<noteq> HW_VULKAN \<longrightarrow>
      getDownloadUrl ''linux'' GOARCH a = getDownloadUrl ''linux'' GOARCH HW_NONE) \<and>
   (detectHost ''linux'' GOARCH = Inr lhost \<longrightarrow>
      hardware (selectHardware lhost HW_VULKAN) = HW_VULKAN \<and>
      getDownloadUrl ''linux'' GOARCH HW_VULKAN \<noteq> getDownloadUrl ''linux'' GOARCH HW_NONE) \<and>
   (detectHost ''windows'' GOARCH = Inr whost \<and> a \<noteq> HW_NONE \<longrightarrow>
      hardware (selectHardware whost a) = a) \<and>
   (GOARCH \<in> {''amd64'', ''arm64''} \<and> {a, b} \<subseteq> {HW_CPU, HW_CUDA, HW_VULKAN, HW_RADEON} \<and>
    a \<noteq> b \<longrightarrow>
      getDownloadUrl ''windows'' GOARCH a \<noteq> getDownloadUrl ''windows'' GOARCH b) \<and>
   getDownloadUrl ''windows'' GOARCH HW_NONE = getDownloadUrl ''windows'' GOARCH HW_CPU"
proof (intro conjI impI)
  show "getDownloadUrl ''darwin'' GOARCH a = getDownloadUrl ''darwin'' GOARCH HW_NONE"
    by (simp add: resolver_defs host_consts)
  show "getDownloadUrl ''linux'' GOARCH a = getDownloadUrl ''linux'' GOARCH HW_NONE"
    if "a \<noteq> HW_VULKAN"
    using that by (simp add: resolver_defs host_consts)
  show "getDownloadUrl ''windows'' GOARCH HW_NONE = getDownloadUrl ''windows'' GOARCH HW_CPU"
    by (simp add: resolver_defs host_consts)
  show "hardware (selectHardware lhost HW_VULKAN) = HW_VULKAN"
    if "detectHost ''linux'' GOARCH = Inr lhost"
    using that
    by (auto simp: detectHost_def selectHardware_def hostInfo_zero_def Let_def host_consts
        split: if_splits)
  show "getDownloadUrl ''linux'' GOARCH HW_VULKAN \<noteq> getDownloadUrl ''linux'' GOARCH HW_NONE"
    if "detectHost ''linux'' GOARCH = Inr lhost"
    using that by (auto simp: resolver_defs host_consts split: if_splits)
  show "hardware (selectHardware whost a) = a"
    if "detectHost ''windows'' GOARCH = Inr whost \<and> a \<noteq> HW_NONE"
    using that
    by (auto simp: detectHost_def selectHardware_def hostInfo_zero_def Let_def host_consts
        split: if_splits)
  show "getDownloadUrl ''windows'' GOARCH a \<noteq> getDownloadUrl ''windows'' GOARCH b"
    if "GOARCH \<in> {''amd64'', ''arm64''} \<and> {a, b} \<subseteq> {HW_CPU, HW_CUDA, HW_VULKAN, HW_RADEON} \<and>
      a \<noteq> b"
    using that
    apply (simp only: insert_iff empty_iff insert_subset empty_subsetI)
    apply (elim disjE FalseE conjE)
    apply (simp_all add: resolver_defs host_consts)
    done
qed

theorem accelerator_normalization_witness:
  "getDownloadUrl ''darwin'' ''arm64'' HW_CUDA = getDownloadUrl ''darwin'' ''arm64'' HW_NONE \<and>
   HW_CUDA \<noteq> HW_VULKAN \<and>
   getDownloadUrl ''linux'' ''arm64'' HW_CUDA = getDownloadUrl ''linux'' ''arm64'' HW_NONE \<and>
   detectHost ''linux'' ''arm64'' = Inr \<lparr>opSys = OS_UBUNTU, hardware = 0, arch = ARCH_ARM\<rparr> \<and>
   hardware (selectHardware \<lparr>opSys = OS_UBUNTU, hardware = 0, arch = ARCH_ARM\<rparr> HW_VULKAN)
     = HW_VULKAN \<and>
   getDownloadUrl ''linux'' ''arm64'' HW_VULKAN \<noteq> getDownloadUrl ''linux'' ''arm64'' HW_NONE \<and>
   detectHost ''windows'' ''arm64'' = Inr \<lparr>opSys = OS_WIN, hardware = 0, arch = ARCH_ARM\<rparr> \<and>
   HW_CUDA \<noteq> HW_NONE \<and>
   hardware (selectHardware \<lparr>opSys = OS_WIN, hardware = 0, arch = ARCH_ARM\<rparr> HW_CUDA) = HW_CUDA \<and>
   {HW_CUDA, HW_RADEON} \<subseteq> {HW_CPU, HW_CUDA, HW_VULKAN, HW_RADEON} \<and> HW_CUDA \<noteq> HW_RADEON \<and>
   getDownloadUrl ''windows'' ''arm64'' HW_CUDA \<noteq> getDownloadUrl ''windows'' ''arm64'' HW_RADEON \<and>
   getDownloadUrl ''windows'' ''arm64'' HW_NONE = getDownloadUrl ''windows'' ''arm64'' HW_CPU"
proof -
  have l: "detectHost ''linux'' ''arm64'' = Inr \<lparr>opSys = OS_UBUNTU, hardware = 0, arch = ARCH_ARM\<rparr>"
    by (simp add: detectHost_def hostInfo_zero_def)
  have w: "detectHost ''windows'' ''arm64'' = Inr \<lparr>opSys = OS_WIN, hardware = 0, arch = ARCH_ARM\<rparr>"
    by (simp add: detectHost_def hostInfo_zero_def)
  have c: "HW_CUDA \<noteq> HW_VULKAN" "HW_CUDA \<noteq> HW_NONE" "HW_CUDA \<noteq> HW_RADEON"
    by (simp_all add: host_consts)
  show ?thesis
    using l w c
      accelerator_normalization [of "''arm64''" HW_CUDA
        "\<lparr>opSys = OS_UBUNTU, hardware = 0, arch = ARCH_ARM\<rparr>"
        "\<lparr>opSys = OS_WIN, hardware = 0, arch = ARCH_ARM\<rparr>" HW_RADEON]
    by simp
qed

subsection \<open>Waiting for the worker\<close>

lemmas duration_defs = Microsecond_def Millisecond_def Second_def Minute_def

lemma Milliseconds_nonpos: "Milliseconds d \<le> 0 \<longleftrightarrow> d < Millisecond"
  by (auto simp: Milliseconds_def quo_def duration_defs)

lemma effectiveTimeout_cases:
  "effectiveTimeout d = (if d < Millisecond then 99 * Minute else d)"
  by (simp add: effectiveTimeout_def Milliseconds_nonpos)

lemma effectiveTimeout_pos: "0 < effectiveTimeout d"
  by (simp add: effectiveTimeout_cases duration_defs)

lemma healthy_map_sum [simp]: "healthy (map_sum f id r) = healthy r"
  by (cases r) (simp_all add: healthy_def)

lemma fst_Head: "fst (Head E url w) = map_sum http_error id (outcome (head E (heads w) url))"
  by (simp add: Head_def Let_def)

lemma heads_Head: "heads (snd (Head E url w)) = Suc (heads w)"
  by (simp add: Head_def Let_def)

lemma clock_pollRound:
  "clock (pollRound E x w) = clock w + int (took (head E (heads w) (healthURL x))) + Second"
  by (simp add: pollRound_def Sleep_def Head_def Let_def duration_defs)

lemma heads_pollRound: "heads (pollRound E x w) = Suc (heads w)"
  by (simp add: pollRound_def Sleep_def Head_def Let_def)

lemma pollMute_0: "pollMute E x w 0 \<longleftrightarrow> silent E (heads w) (healthURL x)"
  by (simp add: pollMute_def)

lemma pollUp_0:
  "pollUp E x w 0 \<longleftrightarrow>
     \<not> silent E (heads w) (healthURL x) \<and> healthy (outcome (head E (heads w) (healthURL x)))"
  by (simp add: pollUp_def pollMute_def)

lemma pollDown_0:
  "pollDown E x w 0 \<longleftrightarrow>
     \<not> silent E (heads w) (healthURL x) \<and> \<not> healthy (outcome (head E (heads w) (healthURL x)))"
  by (simp add: pollDown_def pollMute_def)

lemma pollMute_pollRound: "pollMute E x (pollRound E x w) k = pollMute E x w (Suc k)"
  by (simp add: pollMute_def heads_pollRound)

lemma pollUp_pollRound: "pollUp E x (pollRound E x w) k = pollUp E x w (Suc k)"
  by (simp add: pollUp_def pollMute_def heads_pollRound)

lemma pollDown_pollRound: "pollDown E x (pollRound E x w) k = pollDown E x w (Suc k)"
  by (simp add: pollDown_def pollMute_def heads_pollRound)

lemma pollHealth_expired:
  "\<not> clock w < T \<Longrightarrow> pollHealth E x T w = (Returns (Some (errors_New ''time out'')), w)"
  by (simp add: pollHealth.simps)

lemma pollHealth_mute:
  "clock w < T \<Longrightarrow> pollMute E x w 0 \<Longrightarrow>
     pollHealth E x T w = (Hangs, stuck (healthURL x) w)"
  by (simp add: pollHealth.simps [of E x T w] unanswered_def pollMute_0)

lemma pollHealth_up:
  "clock w < T \<Longrightarrow> pollUp E x w 0 \<Longrightarrow>
     pollHealth E x T w = (Returns None, snd (Head E (healthURL x) w))"
  by (simp add: pollHealth.simps [of E x T w] unanswered_def pollUp_0 fst_Head split_beta)

lemma pollHealth_down:
  "clock w < T \<Longrightarrow> pollDown E x w 0 \<Longrightarrow>
     pollHealth E x T w = pollHealth E x T (pollRound E x w)"
  by (simp add: pollHealth.simps [of E x T w] unanswered_def pollDown_0 fst_Head split_beta
      pollRound_def)

lemma pollInstant_pollRound:
  "pollInstant E x (pollRound E x w) k = pollInstant E x w (Suc k)"
  by (induction k) (simp_all add: clock_pollRound heads_pollRound)

lemma pollInstant_ge: "clock w + int k * Second \<le> pollInstant E x w k"
  by (induction k) (simp_all add: algebra_simps)

text \<open>
  The induction all facts about the loop go through: a property holds of every run when
  it holds of a run that ends at once (the deadline is over, the request is never
  answered, or the answer is a healthy one), and of a run that goes another round if it
  holds of the rest of it.
\<close>

lemma pollHealth_cases [case_names expired mute up down]:
  assumes "\<And>w. \<not> clock w < T \<Longrightarrow> P w"
    and "\<And>w. clock w < T \<Longrightarrow> pollMute E x w 0 \<Longrightarrow> P w"
    and "\<And>w. clock w < T \<Longrightarrow> pollUp E x w 0 \<Longrightarrow> P w"
    and "\<And>w. clock w < T \<Longrightarrow> pollDown E x w 0 \<Longrightarrow> P (pollRound E x w) \<Longrightarrow> P w"
  shows "P w"
proof (induction "nat (T - clock w)" arbitrary: w rule: less_induct)
  case less
  show ?case
  proof (cases "clock w < T")
    case False
    then show ?thesis by (rule assms(1))
  next
    case True
    consider "pollMute E x w 0" | "pollUp E x w 0" | "pollDown E x w 0"
      unfolding pollUp_def pollDown_def by blast
    then show ?thesis
    proof cases
      case 1
      with True show ?thesis by (rule assms(2))
    next
      case 2
      with True show ?thesis by (rule assms(3))
    next
      case 3
      have "nat (T - clock (pollRound E x w)) < nat (T - clock w)"
        using True by (simp add: clock_pollRound duration_defs)
      then have "P (pollRound E x w)"
        by (rule less)
      with True 3 show ?thesis by (rule assms(4))
    qed
  qed
qed

lemma pollInstant_expired: "\<not> clock w < T \<Longrightarrow> \<not> pollInstant E x w k < T"
  using pollInstant_ge [of w k E x] by (simp add: duration_defs)

lemma pollUp_not: "pollUp E x w k \<Longrightarrow> \<not> pollMute E x w k \<and> \<not> pollDown E x w k"
  by (simp add: pollUp_def pollDown_def)

lemma pollDown_not: "pollDown E x w k \<Longrightarrow> \<not> pollMute E x w k \<and> \<not> pollUp E x w k"
  by (simp add: pollUp_def pollDown_def)

lemma pollHealth_hangs_iff:
  "fst (pollHealth E x T w) = Hangs \<longleftrightarrow>
     (\<exists>k. pollInstant E x w k < T \<and> pollMute E x w k \<and> (\<forall>j<k. pollDown E x w j))"
proof (induction w rule: pollHealth_cases [of T _ E x])
  case (expired w)
  then show ?case
    by (simp add: pollHealth_expired pollInstant_expired)
next
  case (mute w)
  then have "pollInstant E x w 0 < T \<and> pollMute E x w 0 \<and> (\<forall>j<0. pollDown E x w j)"
    by simp
  then have "\<exists>k. pollInstant E x w k < T \<and> pollMute E x w k \<and> (\<forall>j<k. pollDown E x w j)"
    by (rule exI)
  with mute show ?case
    by (simp add: pollHealth_mute)
next
  case (up w)
  have "\<not> (pollMute E x w k \<and> (\<forall>j<k. pollDown E x w j))" for k
    using pollUp_not [OF up(2)] by (cases k) auto
  with up show ?case
    by (simp add: pollHealth_up)
next
  case (down w)
  have "(\<exists>k. pollInstant E x w k < T \<and> pollMute E x w k \<and> (\<forall>j<k. pollDown E x w j))
    \<longleftrightarrow> (\<exists>k. pollInstant E x w (Suc k) < T \<and> pollMute E x w (Suc k) \<and>
          (\<forall>j<k. pollDown E x w (Suc j)))"
    (is "?L \<longleftrightarrow> ?R")
  proof
    assume ?L
    then obtain k where k: "pollInstant E x w k < T" "pollMute E x w k"
      "\<forall>j<k. pollDown E x w j" by blast
    from k(2) pollDown_not [OF down(2)] obtain i where i: "k = Suc i"
      by (cases k) auto
    from k(3) have "\<forall>j<i. pollDown E x w (Suc j)"
      unfolding i by auto
    with k(1,2) show ?R
      unfolding i by blast
  next
    assume ?R
    then obtain k where k: "pollInstant E x w (Suc k) < T" "pollMute E x w (Suc k)"
      "\<forall>j<k. pollDown E x w (Suc j)" by blast
    have "pollDown E x w j" if "j < Suc k" for j
      using that k(3) down(2) by (cases j) auto
    with k(1,2) show ?L by blast
  qed
  with down show ?case
    by (simp add: pollHealth_down pollInstant_pollRound pollMute_pollRound pollDown_pollRound)
qed

lemma pollHealth_success_iff:
  "fst (pollHealth E x T w) \<noteq> Hangs \<Longrightarrow>
     fst (pollHealth E x T w) = Returns None \<longleftrightarrow>
       (\<exists>k. pollInstant E x w k < T \<and> pollUp E x w k)"
proof (induction w rule: pollHealth_cases [of T _ E x])
  case (expired w)
  then show ?case
    by (simp add: pollHealth_expired pollInstant_expired)
next
  case (mute w)
  then show ?case
    by (simp add: pollHealth_mute)
next
  case (up w)
  then have "pollInstant E x w 0 < T \<and> pollUp E x w 0"
    by simp
  then have "\<exists>k. pollInstant E x w k < T \<and> pollUp E x w k"
    by (rule exI)
  with up show ?case
    by (simp add: pollHealth_up)
next
  case (down w)
  have "(\<exists>k. pollInstant E x w k < T \<and> pollUp E x w k)
    \<longleftrightarrow> (\<exists>k. pollInstant E x w (Suc k) < T \<and> pollUp E x w (Suc k))"
    (is "?L \<longleftrightarrow> ?R")
  proof
    assume ?L
    then obtain k where k: "pollInstant E x w k < T" "pollUp E x w k" by blast
    from k(2) pollDown_not [OF down(2)] obtain i where "k = Suc i"
      by (cases k) auto
    with k show ?R by blast
  next
    assume ?R then show ?L by blast
  qed
  with down show ?case
    by (simp add: pollHealth_down pollInstant_pollRound pollUp_pollRound)
qed

lemma pollHealth_ending:
  "fst (pollHealth E x T w) = Returns None \<or>
   fst (pollHealth E x T w) = Returns (Some (errors_New ''time out'')) \<or>
   fst (pollHealth E x T w) = Hangs"
  by (induction w rule: pollHealth_cases [of T _ E x])
    (simp_all add: pollHealth_expired pollHealth_mute pollHealth_up pollHealth_down)

lemma heads_stuck: "heads (stuck url w) = Suc (heads w)"
  by (simp add: stuck_def)

lemma pollHealth_heads_mono: "heads w \<le> heads (snd (pollHealth E x T w))"
  by (induction w rule: pollHealth_cases [of T _ E x])
    (simp_all add: pollHealth_expired pollHealth_mute pollHealth_up pollHealth_down heads_Head
      heads_pollRound heads_stuck)

lemma pollHealth_polls_once:
  assumes "clock w < T"
  shows "heads w < heads (snd (pollHealth E x T w))"
proof -
  consider "pollMute E x w 0" | "pollUp E x w 0" | "pollDown E x w 0"
    unfolding pollUp_def pollDown_def by blast
  then show ?thesis
  proof cases
    case 1
    with assms show ?thesis by (simp add: pollHealth_mute heads_stuck)
  next
    case 2
    with assms show ?thesis by (simp add: pollHealth_up heads_Head)
  next
    case 3
    with assms show ?thesis
      using pollHealth_heads_mono [of "pollRound E x w" E x T]
      by (simp add: pollHealth_down heads_pollRound)
  qed
qed

lemma pollHealth_polls_bounded:
  "int (heads (snd (pollHealth E x T w)) - heads w) * Second < max 0 (T - clock w) + Second"
proof (induction w rule: pollHealth_cases [of T _ E x])
  case (expired w)
  then show ?case by (simp add: pollHealth_expired duration_defs)
next
  case (mute w)
  then show ?case by (simp add: pollHealth_mute heads_stuck duration_defs)
next
  case (up w)
  then show ?case by (simp add: pollHealth_up heads_Head duration_defs)
next
  case (down w)
  have "heads (snd (pollHealth E x T (pollRound E x w))) - heads w
    = Suc (heads (snd (pollHealth E x T (pollRound E x w))) - heads (pollRound E x w))"
    using pollHealth_heads_mono [of "pollRound E x w" E x T] by (simp add: heads_pollRound)
  moreover have "clock (pollRound E x w) \<ge> clock w + Second"
    by (simp add: clock_pollRound)
  ultimately show ?case
    using down by (simp add: pollHealth_down duration_defs max_def split: if_splits)
qed

lemma WaitUntilLoaded_pollHealth:
  "WaitUntilLoaded E x w timeout = pollHealth E x (clock w + effectiveTimeout timeout) w"
  by (simp add: WaitUntilLoaded_def Let_def)


lemmas example_defs = exampleEnv_def upAfter_def handle0_def newHandle_def world0_def healthURL_def
  Head_def Sleep_def healthy_def Let_def


lemmas WaitUntilLoaded_run = WaitUntilLoaded_def effectiveTimeout_def Milliseconds_def quo_def
  duration_defs pollHealth.simps unanswered_def stuck_def muteFrom_def example_defs


text \<open>
  C1, as the code has it. The deadline of \<open>WaitUntilLoaded\<close> is the given time-out when
  that is one millisecond or more, and 99 minutes when it is shorter, which covers every
  time-out that is not positive. The call never returns exactly when one of the polls it
  sends before the deadline is never answered (the polls before it having been answered,
  and none of them healthy): the client has no time-out of its own. When the call
  returns, it returns success if and only if some poll of the health address sent before
  the deadline (the polls are a second apart, and further by the time the requests take)
  is answered without an error and with a status below 500, and otherwise the error
  \<open>time out\<close>, the specification's ReadinessTimeout. It does return when every poll sent
  before the deadline is answered. With a time-out of zero or less it has sent a poll
  before it returns. It sends fewer polls than the deadline has seconds, plus one.
\<close>


theorem WaitUntilLoaded_outcome:
  "effectiveTimeout timeout = (if timeout < Millisecond then 99 * Minute else timeout) \<and>
   (fst (WaitUntilLoaded E x w timeout) = Hangs \<longleftrightarrow>
      muteWithin E x w (effectiveTimeout timeout)) \<and>
   (fst (WaitUntilLoaded E x w timeout) \<noteq> Hangs \<longrightarrow>
      (fst (WaitUntilLoaded E x w timeout) = Returns None \<longleftrightarrow>
         healthyWithin E x w (effectiveTimeout timeout)) \<and>
      (fst (WaitUntilLoaded E x w timeout) \<noteq> Returns None \<longrightarrow>
         fst (WaitUntilLoaded E x w timeout) = Returns (Some (errors_New ''time out'')))) \<and>
   ((\<forall>k. pollInstant E x w k < clock w + effectiveTimeout timeout \<longrightarrow> \<not> pollMute E x w k) \<longrightarrow>
      fst (WaitUntilLoaded E x w timeout) \<noteq> Hangs) \<and>
   (timeout \<le> 0 \<longrightarrow> heads w < heads (snd (WaitUntilLoaded E x w timeout))) \<and>
   int (heads (snd (WaitUntilLoaded E x w timeout)) - heads w) * Second
     < effectiveTimeout timeout + Second"
proof (intro conjI impI)
  let ?T = "clock w + effectiveTimeout timeout"
  show "effectiveTimeout timeout = (if timeout < Millisecond then 99 * Minute else timeout)"
    by (rule effectiveTimeout_cases)
  show hangs: "fst (WaitUntilLoaded E x w timeout) = Hangs \<longleftrightarrow>
      muteWithin E x w (effectiveTimeout timeout)"
    by (simp only: WaitUntilLoaded_pollHealth pollHealth_hangs_iff muteWithin_def)
  show "fst (WaitUntilLoaded E x w timeout) = Returns None \<longleftrightarrow>
      healthyWithin E x w (effectiveTimeout timeout)"
    if "fst (WaitUntilLoaded E x w timeout) \<noteq> Hangs"
    using that unfolding WaitUntilLoaded_pollHealth healthyWithin_def
    by (rule pollHealth_success_iff)
  show "fst (WaitUntilLoaded E x w timeout) = Returns (Some (errors_New ''time out''))"
    if "fst (WaitUntilLoaded E x w timeout) \<noteq> Hangs"
      and "fst (WaitUntilLoaded E x w timeout) \<noteq> Returns None"
    using that pollHealth_ending [of E x ?T w]
    unfolding WaitUntilLoaded_pollHealth by (elim disjE) simp_all
  show "fst (WaitUntilLoaded E x w timeout) \<noteq> Hangs"
    if "\<forall>k. pollInstant E x w k < ?T \<longrightarrow> \<not> pollMute E x w k"
    using that unfolding hangs muteWithin_def by blast
  show "heads w < heads (snd (WaitUntilLoaded E x w timeout))"
    using effectiveTimeout_pos [of timeout]
    unfolding WaitUntilLoaded_pollHealth by (simp add: pollHealth_polls_once)
  show "int (heads (snd (WaitUntilLoaded E x w timeout)) - heads w) * Second
     < effectiveTimeout timeout + Second"
    using pollHealth_polls_bounded [of E x ?T w] effectiveTimeout_pos [of timeout]
    unfolding WaitUntilLoaded_pollHealth by simp
qed


text \<open>
  Five runs. A worker that is up from the second poll on, waited for with a time-out of
  half a millisecond and with a time-out of zero; one that is up from the sixth poll on,
  waited for three seconds; one that refuses two polls and leaves the third unanswered,
  waited for five seconds; and one that answers no poll at all, waited for with a
  time-out of zero.
\<close>


theorem WaitUntilLoaded_outcome_witness:
  "fst (WaitUntilLoaded (exampleEnv (upAfter 1) [] []) handle0 world0 (500 * Microsecond))
     = Returns None \<and>
   healthyWithin (exampleEnv (upAfter 1) [] []) handle0 world0
     (effectiveTimeout (500 * Microsecond)) \<and>
   effectiveTimeout (500 * Microsecond) = 99 * Minute \<and>
   fst (WaitUntilLoaded (exampleEnv (upAfter 5) [] []) handle0 world0 (3 * Second)) \<noteq> Hangs \<and>
   fst (WaitUntilLoaded (exampleEnv (upAfter 5) [] []) handle0 world0 (3 * Second))
     = Returns (Some (errors_New ''time out'')) \<and>
   \<not> healthyWithin (exampleEnv (upAfter 5) [] []) handle0 world0 (effectiveTimeout (3 * Second)) \<and>
   \<not> muteWithin (exampleEnv (upAfter 5) [] []) handle0 world0 (effectiveTimeout (3 * Second)) \<and>
   heads (snd (WaitUntilLoaded (exampleEnv (upAfter 5) [] []) handle0 world0 (3 * Second))) = 3 \<and>
   WaitUntilLoaded (muteFrom 2 (exampleEnv (upAfter 5) [] [])) handle0 world0 (5 * Second)
     = (Hangs,
        \<lparr>clock = 2000000000, heads = 3, posts = 0,
         trace = [HeadRequest ''http://127.0.0.1:8080/health'', Slept 1000000000,
                  HeadRequest ''http://127.0.0.1:8080/health'', Slept 1000000000,
                  HeadRequest ''http://127.0.0.1:8080/health'']\<rparr>) \<and>
   muteWithin (muteFrom 2 (exampleEnv (upAfter 5) [] [])) handle0 world0
     (effectiveTimeout (5 * Second)) \<and>
   heads world0
     < heads (snd (WaitUntilLoaded (exampleEnv (upAfter 1) [] []) handle0 world0 0)) \<and>
   WaitUntilLoaded (exampleEnv (upAfter 1) [] []) handle0 world0 0
     = (Returns None,
        \<lparr>clock = 1000000000, heads = 2, posts = 0,
         trace = [HeadRequest ''http://127.0.0.1:8080/health'', Slept 1000000000,
                  HeadRequest ''http://127.0.0.1:8080/health'']\<rparr>) \<and>
   heads world0
     < heads (snd (WaitUntilLoaded (muteFrom 0 (exampleEnv (upAfter 0) [] [])) handle0 world0 0)) \<and>
   fst (WaitUntilLoaded (muteFrom 0 (exampleEnv (upAfter 0) [] [])) handle0 world0 0) = Hangs"
proof -
  let ?E1 = "exampleEnv (upAfter 1) [] []"
  let ?E5 = "exampleEnv (upAfter 5) [] []"
  let ?M2 = "muteFrom 2 (exampleEnv (upAfter 5) [] [])"
  let ?M0 = "muteFrom 0 (exampleEnv (upAfter 0) [] [])"
  note t1 = WaitUntilLoaded_outcome [of "500 * Microsecond" ?E1 handle0 world0]
  note t5 = WaitUntilLoaded_outcome [of "3 * Second" ?E5 handle0 world0]
  note t2 = WaitUntilLoaded_outcome [of "5 * Second" ?M2 handle0 world0]
  note z1 = WaitUntilLoaded_outcome [of 0 ?E1 handle0 world0]
  note z0 = WaitUntilLoaded_outcome [of 0 ?M0 handle0 world0]
  have a: "fst (WaitUntilLoaded ?E1 handle0 world0 (500 * Microsecond)) = Returns None"
    by (simp add: WaitUntilLoaded_run)
  have b: "WaitUntilLoaded ?E5 handle0 world0 (3 * Second)
    = (Returns (Some (errors_New ''time out'')),
       \<lparr>clock = 3000000000, heads = 3, posts = 0,
        trace = [HeadRequest ''http://127.0.0.1:8080/health'', Slept 1000000000,
                 HeadRequest ''http://127.0.0.1:8080/health'', Slept 1000000000,
                 HeadRequest ''http://127.0.0.1:8080/health'', Slept 1000000000]\<rparr>)"
    by (simp add: WaitUntilLoaded_run)
  have c: "WaitUntilLoaded ?M2 handle0 world0 (5 * Second)
     = (Hangs,
        \<lparr>clock = 2000000000, heads = 3, posts = 0,
         trace = [HeadRequest ''http://127.0.0.1:8080/health'', Slept 1000000000,
                  HeadRequest ''http://127.0.0.1:8080/health'', Slept 1000000000,
                  HeadRequest ''http://127.0.0.1:8080/health'']\<rparr>)"
    by (simp add: WaitUntilLoaded_run)
  have d: "WaitUntilLoaded ?E1 handle0 world0 0
     = (Returns None,
        \<lparr>clock = 1000000000, heads = 2, posts = 0,
         trace = [HeadRequest ''http://127.0.0.1:8080/health'', Slept 1000000000,
                  HeadRequest ''http://127.0.0.1:8080/health'']\<rparr>)"
    by (simp add: WaitUntilLoaded_run)
  have e: "fst (WaitUntilLoaded ?M0 handle0 world0 0) = Hangs"
    by (simp add: WaitUntilLoaded_run)
  have a1: "fst (WaitUntilLoaded ?E1 handle0 world0 (500 * Microsecond)) \<noteq> Hangs"
    unfolding a by simp
  have 1: "healthyWithin ?E1 handle0 world0 (effectiveTimeout (500 * Microsecond))"
    using t1 [THEN conjunct2, THEN conjunct2, THEN conjunct1, THEN mp, OF a1, THEN conjunct1] a
    by simp
  have "\<forall>k. pollInstant ?E5 handle0 world0 k < clock world0 + effectiveTimeout (3 * Second)
      \<longrightarrow> \<not> pollMute ?E5 handle0 world0 k"
    by (simp add: pollMute_def exampleEnv_def)
  then have 2: "fst (WaitUntilLoaded ?E5 handle0 world0 (3 * Second)) \<noteq> Hangs"
    by (rule t5 [THEN conjunct2, THEN conjunct2, THEN conjunct2, THEN conjunct1, THEN mp])
  have b1: "fst (WaitUntilLoaded ?E5 handle0 world0 (3 * Second)) \<noteq> Returns None"
    unfolding b by simp
  have 3: "\<not> healthyWithin ?E5 handle0 world0 (effectiveTimeout (3 * Second))"
    using t5 [THEN conjunct2, THEN conjunct2, THEN conjunct1, THEN mp, OF 2, THEN conjunct1] b1
    by simp
  have 4: "fst (WaitUntilLoaded ?E5 handle0 world0 (3 * Second))
     = Returns (Some (errors_New ''time out''))"
    by (rule t5 [THEN conjunct2, THEN conjunct2, THEN conjunct1, THEN mp, OF 2, THEN conjunct2,
          THEN mp, OF b1])
  have 5: "\<not> muteWithin ?E5 handle0 world0 (effectiveTimeout (3 * Second))"
    using t5 [THEN conjunct2, THEN conjunct1] 2 by simp
  have 6: "muteWithin ?M2 handle0 world0 (effectiveTimeout (5 * Second))"
    using t2 [THEN conjunct2, THEN conjunct1] c by simp
  have 7: "heads world0 < heads (snd (WaitUntilLoaded ?E1 handle0 world0 0))"
    by (rule z1 [THEN conjunct2, THEN conjunct2, THEN conjunct2, THEN conjunct2, THEN conjunct1,
          THEN mp]) simp
  have 8: "heads world0 < heads (snd (WaitUntilLoaded ?M0 handle0 world0 0))"
    by (rule z0 [THEN conjunct2, THEN conjunct2, THEN conjunct2, THEN conjunct2, THEN conjunct1,
          THEN mp]) simp
  have 9: "effectiveTimeout (500 * Microsecond) = 99 * Minute"
    by (simp add: effectiveTimeout_cases duration_defs)
  have 10: "heads (snd (WaitUntilLoaded ?E5 handle0 world0 (3 * Second))) = 3"
    unfolding b by simp
  show ?thesis
    by (intro conjI) (fact a 1 2 3 4 5 6 7 8 9 10 c d e)+
qed

text \<open>
  C1 as the specification words it fails in two ways. With a deadline of the given
  time-out whenever that is positive, it fails for a time-out of half a millisecond: the
  first worker below refuses the first poll and answers the second one, a full second
  later; no poll within half a millisecond is answered, and yet the call returns
  success, because it waits 99 minutes. And the call need not return: the second worker
  below answers no request, so that no poll within the three seconds of the time-out
  sees a healthy reply, and the call does not return the error \<open>time out\<close>, nor anything
  else.
\<close>


theorem WaitUntilLoaded_as_stated_counterexample:
  "\<not> (fst (WaitUntilLoaded (exampleEnv (upAfter 1) [] []) handle0 world0 (500 * Microsecond))
        = Returns None \<longleftrightarrow>
      healthyWithin (exampleEnv (upAfter 1) [] []) handle0 world0
        (statedTimeout (500 * Microsecond))) \<and>
   \<not> healthyWithin (muteFrom 0 (exampleEnv (upAfter 0) [] [])) handle0 world0
       (statedTimeout (3 * Second)) \<and>
   fst (WaitUntilLoaded (muteFrom 0 (exampleEnv (upAfter 0) [] [])) handle0 world0 (3 * Second))
     \<noteq> Returns (Some (errors_New ''time out'')) \<and>
   fst (WaitUntilLoaded (muteFrom 0 (exampleEnv (upAfter 0) [] [])) handle0 world0 (3 * Second))
     = Hangs"
proof -
  have a: "fst (WaitUntilLoaded (exampleEnv (upAfter 1) [] []) handle0 world0
      (500 * Microsecond)) = Returns None"
    by (simp add: WaitUntilLoaded_run)
  have b: "\<not> healthyWithin (exampleEnv (upAfter 1) [] []) handle0 world0
      (statedTimeout (500 * Microsecond))"
  proof
    assume "healthyWithin (exampleEnv (upAfter 1) [] []) handle0 world0
      (statedTimeout (500 * Microsecond))"
    then obtain k where
      k: "pollInstant (exampleEnv (upAfter 1) [] []) handle0 world0 k
            < clock world0 + statedTimeout (500 * Microsecond)"
        "pollUp (exampleEnv (upAfter 1) [] []) handle0 world0 k"
      unfolding healthyWithin_def by blast
    from k(1) pollInstant_ge [of world0 k "exampleEnv (upAfter 1) [] []" handle0]
    have "k = 0"
      by (simp add: statedTimeout_def duration_defs world0_def)
    with k(2) show False
      by (simp add: pollUp_def pollMute_def example_defs)
  qed
  have c: "\<not> healthyWithin (muteFrom 0 (exampleEnv (upAfter 0) [] [])) handle0 world0
       (statedTimeout (3 * Second))"
    by (simp add: healthyWithin_def pollUp_def pollMute_def muteFrom_def)
  have d: "fst (WaitUntilLoaded (muteFrom 0 (exampleEnv (upAfter 0) [] [])) handle0 world0
      (3 * Second)) = Hangs"
    by (simp add: WaitUntilLoaded_run)
  from a b c d show ?thesis by simp
qed


text \<open>
  C10. The guard of \<open>WaitUntilLoaded\<close> tests the whole milliseconds of the time-out, and
  these are zero or less exactly when the time-out is shorter than one millisecond. So
  every time-out shorter than one millisecond, the positive ones such as 500
  microseconds among them, is replaced by 99 minutes, and every other one is kept.
\<close>


theorem sub_millisecond_timeout_coerced:
  "(Milliseconds timeout \<le> 0 \<longleftrightarrow> timeout < Millisecond) \<and>
   (timeout < Millisecond \<longrightarrow>
      effectiveTimeout timeout = 99 * Minute \<and>
      WaitUntilLoaded E x w timeout = pollHealth E x (clock w + 99 * Minute) w) \<and>
   (Millisecond \<le> timeout \<longrightarrow>
      effectiveTimeout timeout = timeout \<and>
      WaitUntilLoaded E x w timeout = pollHealth E x (clock w + timeout) w) \<and>
   0 < 500 * Microsecond \<and> Milliseconds (500 * Microsecond) = 0 \<and>
   effectiveTimeout (500 * Microsecond) = 99 * Minute"
proof (intro conjI impI)
  show "Milliseconds timeout \<le> 0 \<longleftrightarrow> timeout < Millisecond"
    by (rule Milliseconds_nonpos)
  show "effectiveTimeout timeout = 99 * Minute" if "timeout < Millisecond"
    using that by (simp add: effectiveTimeout_cases)
  show "WaitUntilLoaded E x w timeout = pollHealth E x (clock w + 99 * Minute) w"
    if "timeout < Millisecond"
    using that by (simp add: WaitUntilLoaded_pollHealth effectiveTimeout_cases)
  show "effectiveTimeout timeout = timeout" if "Millisecond \<le> timeout"
    using that by (simp add: effectiveTimeout_cases)
  show "WaitUntilLoaded E x w timeout = pollHealth E x (clock w + timeout) w"
    if "Millisecond \<le> timeout"
    using that by (simp add: WaitUntilLoaded_pollHealth effectiveTimeout_cases)
  show "0 < 500 * Microsecond"
    by (simp add: duration_defs)
  show "Milliseconds (500 * Microsecond) = 0"
    by (simp add: Milliseconds_def quo_def duration_defs)
  show "effectiveTimeout (500 * Microsecond) = 99 * Minute"
    by (simp add: effectiveTimeout_cases duration_defs)
qed


text \<open>
  A time-out of 500 microseconds against a worker that is up from the second poll on:
  the call is still polling a second later. And a time-out of two milliseconds, which is
  kept: the call gives up after the first poll.
\<close>


theorem sub_millisecond_timeout_coerced_witness:
  "500 * Microsecond < Millisecond \<and>
   effectiveTimeout (500 * Microsecond) = 99 * Minute \<and>
   WaitUntilLoaded (exampleEnv (upAfter 1) [] []) handle0 world0 (500 * Microsecond)
     = pollHealth (exampleEnv (upAfter 1) [] []) handle0 (clock world0 + 99 * Minute) world0 \<and>
   WaitUntilLoaded (exampleEnv (upAfter 1) [] []) handle0 world0 (500 * Microsecond)
     = (Returns None,
        \<lparr>clock = 1000000000, heads = 2, posts = 0,
         trace = [HeadRequest ''http://127.0.0.1:8080/health'', Slept 1000000000,
                  HeadRequest ''http://127.0.0.1:8080/health'']\<rparr>) \<and>
   Millisecond \<le> 2 * Millisecond \<and>
   WaitUntilLoaded (exampleEnv (upAfter 1) [] []) handle0 world0 (2 * Millisecond)
     = pollHealth (exampleEnv (upAfter 1) [] []) handle0 (clock world0 + 2 * Millisecond) world0 \<and>
   WaitUntilLoaded (exampleEnv (upAfter 1) [] []) handle0 world0 (2 * Millisecond)
     = (Returns (Some (errors_New ''time out'')),
        \<lparr>clock = 1000000000, heads = 1, posts = 0,
         trace = [HeadRequest ''http://127.0.0.1:8080/health'', Slept 1000000000]\<rparr>)"
proof -
  have a: "500 * Microsecond < Millisecond" "Millisecond \<le> 2 * Millisecond"
    by (simp_all add: duration_defs)
  have b: "WaitUntilLoaded (exampleEnv (upAfter 1) [] []) handle0 world0 (500 * Microsecond)
     = (Returns None,
        \<lparr>clock = 1000000000, heads = 2, posts = 0,
         trace = [HeadRequest ''http://127.0.0.1:8080/health'', Slept 1000000000,
                  HeadRequest ''http://127.0.0.1:8080/health'']\<rparr>)"
    by (simp add: WaitUntilLoaded_run)
  have c: "WaitUntilLoaded (exampleEnv (upAfter 1) [] []) handle0 world0 (2 * Millisecond)
     = (Returns (Some (errors_New ''time out'')),
        \<lparr>clock = 1000000000, heads = 1, posts = 0,
         trace = [HeadRequest ''http://127.0.0.1:8080/health'', Slept 1000000000]\<rparr>)"
    by (simp add: WaitUntilLoaded_run)
  note t = sub_millisecond_timeout_coerced [of _ "exampleEnv (upAfter 1) [] []" handle0 world0]
  have d: "WaitUntilLoaded (exampleEnv (upAfter 1) [] []) handle0 world0 (500 * Microsecond)
     = pollHealth (exampleEnv (upAfter 1) [] []) handle0 (clock world0 + 99 * Minute) world0"
    using a(1) t [of "500 * Microsecond", THEN conjunct2, THEN conjunct1] by simp
  have e: "WaitUntilLoaded (exampleEnv (upAfter 1) [] []) handle0 world0 (2 * Millisecond)
     = pollHealth (exampleEnv (upAfter 1) [] []) handle0 (clock world0 + 2 * Millisecond) world0"
    using a(2) t [of "2 * Millisecond", THEN conjunct2, THEN conjunct2, THEN conjunct1] by simp
  show ?thesis
  proof (intro conjI)
    show "effectiveTimeout (500 * Microsecond) = 99 * Minute"
      by (simp add: effectiveTimeout_cases duration_defs)
  qed (fact a b c d e)+
qed

subsection \<open>The readiness loop\<close>

lemma fst_Head_Sleep:
  "fst (Head E url (Sleep d w)) = map_sum http_error id (outcome (head E (heads w) url))"
  by (simp add: Head_def Sleep_def Let_def)

lemma heads_awaitRound: "heads (awaitRound E x i w) = Suc (heads w)"
  by (simp add: awaitRound_def Head_def Sleep_def Let_def)

lemma posts_awaitRound: "posts (awaitRound E x i w) = posts w"
  by (simp add: awaitRound_def Head_def Sleep_def Let_def)

lemma trace_awaitRound:
  "trace (awaitRound E x i w) = trace w @ [Slept (Second * int i), HeadRequest (healthURL x)]"
  by (simp add: awaitRound_def Head_def Sleep_def Let_def)

lemma awaitRounds_done: "\<not> i < 10 \<Longrightarrow> awaitRounds E x i w = (None, w)"
  by (simp add: awaitRounds.simps)

lemma awaitRounds_healthy:
  "i < 10 \<Longrightarrow> healthy (outcome (head E (heads w) (healthURL x))) \<Longrightarrow>
     awaitRounds E x i w = (None, awaitRound E x i w)"
  by (simp add: awaitRounds.simps [of E x i w] fst_Head_Sleep split_beta Let_def awaitRound_def)

lemma awaitRounds_last:
  "\<not> healthy (outcome (head E (heads w) (healthURL x))) \<Longrightarrow>
     awaitRounds E x 9 w =
       (Some (errors_New ''timed out while waiting for llama.cpp''), awaitRound E x 9 w)"
  by (simp add: awaitRounds.simps [of E x 9 w] fst_Head_Sleep split_beta Let_def awaitRound_def)

lemma awaitRounds_next:
  "i < 9 \<Longrightarrow> \<not> healthy (outcome (head E (heads w) (healthURL x))) \<Longrightarrow>
     awaitRounds E x i w = awaitRounds E x (Suc i) (awaitRound E x i w)"
  by (simp add: awaitRounds.simps [of E x i w] fst_Head_Sleep split_beta Let_def awaitRound_def)

lemma rounds_empty [simp]: "rounds x i i = []"
  by (simp add: rounds_def)

lemma rounds_first:
  "i < j \<Longrightarrow> rounds x i j = [Slept (Second * int i), HeadRequest (healthURL x)] @ rounds x (Suc i) j"
  by (simp add: rounds_def upt_conv_Cons)

lemma awaitRounds_cases [case_names over ready final another]:
  assumes "\<And>i w. \<not> i < 10 \<Longrightarrow> P i w"
    and "\<And>i w. i < 10 \<Longrightarrow> healthy (outcome (head E (heads w) (healthURL x))) \<Longrightarrow> P i w"
    and "\<And>w. \<not> healthy (outcome (head E (heads w) (healthURL x))) \<Longrightarrow> P 9 w"
    and "\<And>i w. i < 9 \<Longrightarrow> \<not> healthy (outcome (head E (heads w) (healthURL x))) \<Longrightarrow>
           P (Suc i) (awaitRound E x i w) \<Longrightarrow> P i w"
  shows "P i w"
proof (induction "10 - i" arbitrary: i w rule: less_induct)
  case (less i w)
  show ?case
  proof (cases "healthy (outcome (head E (heads w) (healthURL x)))")
    case True
    then show ?thesis
      using assms(1) [of i w] assms(2) [of i w] by blast
  next
    case False
    consider "\<not> i < 10" | "i = 9" | "i < 9" by linarith
    then show ?thesis
    proof cases
      case 1
      then show ?thesis by (rule assms(1))
    next
      case 2
      with False show ?thesis by (simp add: assms(3))
    next
      case 3
      then have "10 - Suc i < 10 - i" by simp
      then have "P (Suc i) (awaitRound E x i w)" by (rule less)
      with 3 False show ?thesis by (rule assms(4))
    qed
  qed
qed

text \<open>No round is healthy: the loop gives up after ten of them.\<close>

lemma awaitRounds_unavailable:
  "i < 10 \<Longrightarrow> \<forall>k. i + k < 10 \<longrightarrow> \<not> healthy (outcome (head E (heads w + k) (healthURL x))) \<Longrightarrow>
     fst (awaitRounds E x i w) = Some (errors_New ''timed out while waiting for llama.cpp'') \<and>
     trace (snd (awaitRounds E x i w)) = trace w @ rounds x i 10 \<and>
     heads (snd (awaitRounds E x i w)) = heads w + (10 - i) \<and>
     posts (snd (awaitRounds E x i w)) = posts w"
proof (induction i w rule: awaitRounds_cases [of _ E x])
  case (over i w)
  then show ?case by simp
next
  case (ready i w)
  from ready.prems(2) [rule_format, of 0] ready.prems(1)
  have "\<not> healthy (outcome (head E (heads w) (healthURL x)))"
    by simp
  with ready.hyps(2) show ?case by simp
next
  case (final w)
  have "rounds x 9 10 = [Slept (Second * int 9), HeadRequest (healthURL x)]"
    by (simp add: rounds_def)
  with final.hyps show ?case
    by (simp add: awaitRounds_last trace_awaitRound heads_awaitRound posts_awaitRound)
next
  case (another i w)
  have "\<not> healthy (outcome (head E (heads (awaitRound E x i w) + k) (healthURL x)))"
    if "Suc i + k < 10" for k
    using another.prems(2) [rule_format, of "Suc k"] that by (simp add: heads_awaitRound)
  then have "\<forall>k. Suc i + k < 10 \<longrightarrow>
    \<not> healthy (outcome (head E (heads (awaitRound E x i w) + k) (healthURL x)))"
    by blast
  moreover have "Suc i < 10"
    using another.hyps(1) by simp
  ultimately have
    "fst (awaitRounds E x (Suc i) (awaitRound E x i w))
       = Some (errors_New ''timed out while waiting for llama.cpp'') \<and>
     trace (snd (awaitRounds E x (Suc i) (awaitRound E x i w)))
       = trace (awaitRound E x i w) @ rounds x (Suc i) 10 \<and>
     heads (snd (awaitRounds E x (Suc i) (awaitRound E x i w)))
       = heads (awaitRound E x i w) + (10 - Suc i) \<and>
     posts (snd (awaitRounds E x (Suc i) (awaitRound E x i w))) = posts (awaitRound E x i w)"
    by (rule another.IH [rotated])
  moreover have "awaitRounds E x i w = awaitRounds E x (Suc i) (awaitRound E x i w)"
    using another.hyps by (rule awaitRounds_next)
  moreover have "rounds x i 10
    = [Slept (Second * int i), HeadRequest (healthURL x)] @ rounds x (Suc i) 10"
    using another.prems(1) by (rule rounds_first)
  moreover have "heads w + (10 - i) = Suc (heads w) + (10 - Suc i)"
    using another.hyps(1) by simp
  ultimately show ?case
    by (simp only: trace_awaitRound heads_awaitRound posts_awaitRound append_assoc)
qed

text \<open>Round \<open>i + j\<close> is the first healthy one: the loop leaves there.\<close>

lemma awaitRounds_available:
  "i + j < 10 \<Longrightarrow> \<forall>k<j. \<not> healthy (outcome (head E (heads w + k) (healthURL x))) \<Longrightarrow>
   healthy (outcome (head E (heads w + j) (healthURL x))) \<Longrightarrow>
     fst (awaitRounds E x i w) = None \<and>
     trace (snd (awaitRounds E x i w)) = trace w @ rounds x i (Suc (i + j)) \<and>
     heads (snd (awaitRounds E x i w)) = heads w + Suc j \<and>
     posts (snd (awaitRounds E x i w)) = posts w"
proof (induction j arbitrary: i w)
  case 0
  have "rounds x i (Suc i) = [Slept (Second * int i), HeadRequest (healthURL x)]"
    by (simp add: rounds_def)
  with 0 show ?case
    by (simp add: awaitRounds_healthy trace_awaitRound heads_awaitRound posts_awaitRound)
next
  case (Suc j)
  from Suc.prems(2) [rule_format, of 0]
  have nh: "\<not> healthy (outcome (head E (heads w) (healthURL x)))"
    by simp
  have "\<not> healthy (outcome (head E (heads (awaitRound E x i w) + k) (healthURL x)))"
    if "k < j" for k
    using Suc.prems(2) [rule_format, of "Suc k"] that by (simp add: heads_awaitRound)
  then have "\<forall>k<j. \<not> healthy (outcome (head E (heads (awaitRound E x i w) + k) (healthURL x)))"
    by blast
  moreover have "healthy (outcome (head E (heads (awaitRound E x i w) + j) (healthURL x)))"
    using Suc.prems(3) by (simp add: heads_awaitRound)
  moreover have "Suc i + j < 10"
    using Suc.prems(1) by simp
  ultimately have
    "fst (awaitRounds E x (Suc i) (awaitRound E x i w)) = None \<and>
     trace (snd (awaitRounds E x (Suc i) (awaitRound E x i w)))
       = trace (awaitRound E x i w) @ rounds x (Suc i) (Suc (Suc i + j)) \<and>
     heads (snd (awaitRounds E x (Suc i) (awaitRound E x i w)))
       = heads (awaitRound E x i w) + Suc j \<and>
     posts (snd (awaitRounds E x (Suc i) (awaitRound E x i w))) = posts (awaitRound E x i w)"
    by (rule Suc.IH [rotated])
  moreover have "i < 9"
    using Suc.prems(1) by simp
  then have "awaitRounds E x i w = awaitRounds E x (Suc i) (awaitRound E x i w)"
    using nh by (rule awaitRounds_next)
  moreover have "rounds x i (Suc (i + Suc j))
    = [Slept (Second * int i), HeadRequest (healthURL x)] @ rounds x (Suc i) (Suc (Suc i + j))"
    by (simp add: rounds_first [of i])
  ultimately show ?case
    by (simp only: trace_awaitRound heads_awaitRound posts_awaitRound append_assoc) simp
qed

text \<open>However the loop ends, it has sent no POST.\<close>

lemma awaitRounds_trace:
  "\<exists>evs. trace (snd (awaitRounds E x i w)) = trace w @ evs \<and> (\<forall>e\<in>set evs. \<not> isPost e)"
proof (induction i w rule: awaitRounds_cases [of _ E x])
  case (over i w)
  then show ?case by (simp add: awaitRounds_done)
next
  case (ready i w)
  then show ?case by (simp add: awaitRounds_healthy trace_awaitRound)
next
  case (final w)
  then show ?case by (simp add: awaitRounds_last trace_awaitRound)
next
  case (another i w)
  from another.IH obtain evs where
    evs: "trace (snd (awaitRounds E x (Suc i) (awaitRound E x i w)))
       = trace (awaitRound E x i w) @ evs" "\<forall>e\<in>set evs. \<not> isPost e"
    by blast
  have "trace (snd (awaitRounds E x i w))
       = trace w @ ([Slept (Second * int i), HeadRequest (healthURL x)] @ evs)"
    using another.hyps evs(1) by (simp add: awaitRounds_next trace_awaitRound)
  moreover have "\<forall>e\<in>set ([Slept (Second * int i), HeadRequest (healthURL x)] @ evs). \<not> isPost e"
    using evs(2) by simp
  ultimately show ?case
    by blast
qed

subsection \<open>The request and the reply\<close>

lemma awaitWorker_connected: "isConn x \<Longrightarrow> awaitWorker E x w = (None, w)"
  by (simp add: awaitWorker_def)

lemma awaitWorker_first: "\<not> isConn x \<Longrightarrow> awaitWorker E x w = awaitRounds E x 0 w"
  by (simp add: awaitWorker_def)

lemma awaitWorker_trace:
  "\<exists>evs. trace (snd (awaitWorker E x w)) = trace w @ evs \<and> (\<forall>e\<in>set evs. \<not> isPost e)"
proof (cases "isConn x")
  case True
  then show ?thesis by (simp add: awaitWorker_connected)
next
  case False
  then show ?thesis by (simp add: awaitWorker_first awaitRounds_trace)
qed

text \<open>What \<open>postJSON\<close> leaves in the trace: the request, when it could be built.\<close>

lemma postJSON_trace:
  "trace (snd (postJSON E url data w)) =
     trace w @ (case Marshal E data of
                  Inl err \<Rightarrow> []
                | Inr b \<Rightarrow> (case urlError E url of Some msg \<Rightarrow> [] | None \<Rightarrow> [PostRequest url b]))"
  by (auto simp: postJSON_def NewRequest_def Do_def Let_def split_beta
      split: sum.splits option.splits)

lemma postJSON_heads: "heads (snd (postJSON E url data w)) = heads w"
  by (auto simp: postJSON_def NewRequest_def Do_def Let_def split_beta
      split: sum.splits option.splits)

lemma postJSON_sent:
  "Marshal E data = Inr b \<Longrightarrow> urlError E url = None \<Longrightarrow>
     trace (snd (postJSON E url data w)) = trace w @ [PostRequest url b]"
  by (simp add: postJSON_trace)

text \<open>\<open>Chat\<close> and \<open>Complete\<close>, from the body that the exchange delivers.\<close>

lemma Chat_exchange:
  "Chat E x w messages maxTokens =
    (case exchange E x w (chatURL x) (chatData messages (if maxTokens \<le> 0 then 150 else maxTokens)) of
       (Inl err, w2) \<Rightarrow> (Inl err, x, w2)
     | (Inr body, w2) \<Rightarrow>
         if length body > 0 \<and> body ! 0 \<noteq> CHR ''{'' then (Inl (errors_New body), x, w2)
         else (case Unmarshal E body of
                 Inl err \<Rightarrow> (Inl err, x, w2)
               | Inr jsonData \<Rightarrow>
                   (case chatContent jsonData of
                      Inl err \<Rightarrow> (Inl err, x, w2)
                    | Inr content \<Rightarrow> (Inr (TrimSpace content), x\<lparr>isConn := True\<rparr>, w2))))"
proof (cases "awaitWorker E x w")
  case (Pair r w1)
  then show ?thesis
    by (cases r) (simp_all add: Chat_def exchange_def Let_def)
qed

lemma Complete_exchange:
  "Complete E x w prompt maxTokens =
    (case exchange E x w (completionURL x)
            (completionData prompt (if maxTokens \<le> 0 then 150 else maxTokens)) of
       (Inl err, w2) \<Rightarrow> (Inl err, x, w2)
     | (Inr body, w2) \<Rightarrow>
         if length body > 0 \<and> body ! 0 \<noteq> CHR ''{'' then (Inl (errors_New body), x, w2)
         else (case Unmarshal E body of
                 Inl err \<Rightarrow> (Inl err, x, w2)
               | Inr jsonData \<Rightarrow>
                   (case completionContent jsonData of
                      Inl err \<Rightarrow> (Inl err, x, w2)
                    | Inr content \<Rightarrow> (Inr (TrimSpace content), x\<lparr>isConn := True\<rparr>, w2))))"
proof (cases "awaitWorker E x w")
  case (Pair r w1)
  then show ?thesis
    by (cases r) (simp_all add: Complete_def exchange_def Let_def)
qed

lemma Chat_cases [case_names early verbatim undecodable malformed success]:
  obtains (early) err w2 where "exchange E x w (chatURL x) 
        (chatData messages (if maxTokens \<le> 0 then 150 else maxTokens)) = (Inl err, w2)"
      and "Chat E x w messages maxTokens = (Inl err, x, w2)"
  | (verbatim) body w2 where "exchange E x w (chatURL x) 
        (chatData messages (if maxTokens \<le> 0 then 150 else maxTokens)) = (Inr body, w2)"
      and "length body > 0 \<and> body ! 0 \<noteq> CHR ''{''"
      and "Chat E x w messages maxTokens = (Inl (errors_New body), x, w2)"
  | (undecodable) body w2 err where "exchange E x w (chatURL x) 
        (chatData messages (if maxTokens \<le> 0 then 150 else maxTokens)) = (Inr body, w2)"
      and "\<not> (length body > 0 \<and> body ! 0 \<noteq> CHR ''{'')"
      and "Unmarshal E body = Inl err"
      and "Chat E x w messages maxTokens = (Inl err, x, w2)"
  | (malformed) body w2 jsonData err where "exchange E x w (chatURL x) 
        (chatData messages (if maxTokens \<le> 0 then 150 else maxTokens)) = (Inr body, w2)"
      and "\<not> (length body > 0 \<and> body ! 0 \<noteq> CHR ''{'')"
      and "Unmarshal E body = Inr jsonData"
      and "chatContent jsonData = Inl err"
      and "Chat E x w messages maxTokens = (Inl err, x, w2)"
  | (success) body w2 jsonData content where "exchange E x w (chatURL x) 
        (chatData messages (if maxTokens \<le> 0 then 150 else maxTokens)) = (Inr body, w2)"
      and "\<not> (length body > 0 \<and> body ! 0 \<noteq> CHR ''{'')"
      and "Unmarshal E body = Inr jsonData"
      and "chatContent jsonData = Inr content"
      and "Chat E x w messages maxTokens = (Inr (TrimSpace content), x\<lparr>isConn := True\<rparr>, w2)"
proof (cases "exchange E x w (chatURL x) 
        (chatData messages (if maxTokens \<le> 0 then 150 else maxTokens))")
  case (Pair r w2)
  show thesis
  proof (cases r)
    case (Inl err)
    with Pair show thesis
      by (intro early [of err w2]) (simp_all add: Chat_exchange)
  next
    case (Inr body)
    show thesis
    proof (cases "length body > 0 \<and> body ! 0 \<noteq> CHR ''{''")
      case True
      with Pair Inr show thesis
        by (intro verbatim [of body w2]) (simp_all add: Chat_exchange)
    next
      case False
      show thesis
      proof (cases "Unmarshal E body")
        case u: (Inl err)
        with Pair Inr False show thesis
          by (intro undecodable [of body w2 err]) (auto simp: Chat_exchange)
      next
        case u: (Inr jsonData)
        show thesis
        proof (cases "chatContent jsonData")
          case c: (Inl err)
          with Pair Inr False u show thesis
            by (intro malformed [of body w2 jsonData err]) (auto simp: Chat_exchange)
        next
          case c: (Inr content)
          with Pair Inr False u show thesis
            by (intro success [of body w2 jsonData content]) (auto simp: Chat_exchange)
        qed
      qed
    qed
  qed
qed

lemma Chat_world: "snd (snd (Chat E x w messages maxTokens)) = snd (exchange E x w (chatURL x) 
        (chatData messages (if maxTokens \<le> 0 then 150 else maxTokens)))"
  by (cases rule: Chat_cases [of E x w messages maxTokens]) simp_all

lemma Chat_isConn: "isConn x \<Longrightarrow> isConn (fst (snd (Chat E x w messages maxTokens)))"
  by (cases rule: Chat_cases [of E x w messages maxTokens]) simp_all

lemma Chat_success_isConn:
  "fst (Chat E x w messages maxTokens) = Inr reply \<Longrightarrow>
     isConn (fst (snd (Chat E x w messages maxTokens)))"
  by (cases rule: Chat_cases [of E x w messages maxTokens]) simp_all

lemma Complete_cases [case_names early verbatim undecodable malformed success]:
  obtains (early) err w2 where "exchange E x w (completionURL x) 
        (completionData prompt (if maxTokens \<le> 0 then 150 else maxTokens)) = (Inl err, w2)"
      and "Complete E x w prompt maxTokens = (Inl err, x, w2)"
  | (verbatim) body w2 where "exchange E x w (completionURL x) 
        (completionData prompt (if maxTokens \<le> 0 then 150 else maxTokens)) = (Inr body, w2)"
      and "length body > 0 \<and> body ! 0 \<noteq> CHR ''{''"
      and "Complete E x w prompt maxTokens = (Inl (errors_New body), x, w2)"
  | (undecodable) body w2 err where "exchange E x w (completionURL x) 
        (completionData prompt (if maxTokens \<le> 0 then 150 else maxTokens)) = (Inr body, w2)"
      and "\<not> (length body > 0 \<and> body ! 0 \<noteq> CHR ''{'')"
      and "Unmarshal E body = Inl err"
      and "Complete E x w prompt maxTokens = (Inl err, x, w2)"
  | (malformed) body w2 jsonData err where "exchange E x w (completionURL x) 
        (completionData prompt (if maxTokens \<le> 0 then 150 else maxTokens)) = (Inr body, w2)"
      and "\<not> (length body > 0 \<and> body ! 0 \<noteq> CHR ''{'')"
      and "Unmarshal E body = Inr jsonData"
      and "completionContent jsonData = Inl err"
      and "Complete E x w prompt maxTokens = (Inl err, x, w2)"
  | (success) body w2 jsonData content where "exchange E x w (completionURL x) 
        (completionData prompt (if maxTokens \<le> 0 then 150 else maxTokens)) = (Inr body, w2)"
      and "\<not> (length body > 0 \<and> body ! 0 \<noteq> CHR ''{'')"
      and "Unmarshal E body = Inr jsonData"
      and "completionContent jsonData = Inr content"
      and "Complete E x w prompt maxTokens = (Inr (TrimSpace content), x\<lparr>isConn := True\<rparr>, w2)"
proof (cases "exchange E x w (completionURL x) 
        (completionData prompt (if maxTokens \<le> 0 then 150 else maxTokens))")
  case (Pair r w2)
  show thesis
  proof (cases r)
    case (Inl err)
    with Pair show thesis
      by (intro early [of err w2]) (simp_all add: Complete_exchange)
  next
    case (Inr body)
    show thesis
    proof (cases "length body > 0 \<and> body ! 0 \<noteq> CHR ''{''")
      case True
      with Pair Inr show thesis
        by (intro verbatim [of body w2]) (simp_all add: Complete_exchange)
    next
      case False
      show thesis
      proof (cases "Unmarshal E body")
        case u: (Inl err)
        with Pair Inr False show thesis
          by (intro undecodable [of body w2 err]) (auto simp: Complete_exchange)
      next
        case u: (Inr jsonData)
        show thesis
        proof (cases "completionContent jsonData")
          case c: (Inl err)
          with Pair Inr False u show thesis
            by (intro malformed [of body w2 jsonData err]) (auto simp: Complete_exchange)
        next
          case c: (Inr content)
          with Pair Inr False u show thesis
            by (intro success [of body w2 jsonData content]) (auto simp: Complete_exchange)
        qed
      qed
    qed
  qed
qed

lemma Complete_world: "snd (snd (Complete E x w prompt maxTokens)) = snd (exchange E x w (completionURL x) 
        (completionData prompt (if maxTokens \<le> 0 then 150 else maxTokens)))"
  by (cases rule: Complete_cases [of E x w prompt maxTokens]) simp_all

lemma Complete_isConn: "isConn x \<Longrightarrow> isConn (fst (snd (Complete E x w prompt maxTokens)))"
  by (cases rule: Complete_cases [of E x w prompt maxTokens]) simp_all

lemma Complete_success_isConn:
  "fst (Complete E x w prompt maxTokens) = Inr reply \<Longrightarrow>
     isConn (fst (snd (Complete E x w prompt maxTokens)))"
  by (cases rule: Complete_cases [of E x w prompt maxTokens]) simp_all

lemma exchange_world:
  "snd (exchange E x w url data) =
     (if fst (awaitWorker E x w) = None then snd (postJSON E url data (snd (awaitWorker E x w)))
      else snd (awaitWorker E x w))"
  by (cases "awaitWorker E x w"; cases "fst (awaitWorker E x w)") (simp_all add: exchange_def)

lemma perform_isConn: "isConn (fst s) \<Longrightarrow> isConn (fst (perform E c s))"
  by (cases s; cases c) (simp_all add: Chat_isConn Complete_isConn Close_def)

lemma fold_perform_isConn: "isConn (fst s) \<Longrightarrow> isConn (fst (fold (perform E) calls s))"
  by (induction calls arbitrary: s) (simp_all add: perform_isConn)

lemma exchange_refused:
  "fst (awaitWorker E x w) = Some err \<Longrightarrow>
     exchange E x w url data = (Inl err, snd (awaitWorker E x w))"
  by (cases "awaitWorker E x w") (simp add: exchange_def)

lemma exchange_admitted:
  "fst (awaitWorker E x w) = None \<Longrightarrow>
     exchange E x w url data = postJSON E url data (snd (awaitWorker E x w))"
  by (cases "awaitWorker E x w") (simp add: exchange_def)

lemma rounds_ten:
  "rounds x 0 10 =
     [Slept (Second * 0), HeadRequest (healthURL x), Slept (Second * 1), HeadRequest (healthURL x),
      Slept (Second * 2), HeadRequest (healthURL x), Slept (Second * 3), HeadRequest (healthURL x),
      Slept (Second * 4), HeadRequest (healthURL x), Slept (Second * 5), HeadRequest (healthURL x),
      Slept (Second * 6), HeadRequest (healthURL x), Slept (Second * 7), HeadRequest (healthURL x),
      Slept (Second * 8), HeadRequest (healthURL x), Slept (Second * 9), HeadRequest (healthURL x)]"
proof -
  have "[0..<10] = [0, 1, 2, 3, 4, 5, 6, 7, 8, 9 :: nat]"
    by (simp add: upt_rec [of _ "numeral _"])
  then show ?thesis
    by (simp add: rounds_def)
qed

lemma rounds_slept: "sum_list (map slept (rounds x 0 10)) = 45 * Second"
  by (simp add: rounds_ten)

lemma rounds_no_post: "\<forall>e\<in>set (rounds x i j). \<not> isPost e"
  by (auto simp: rounds_def)

text \<open>The call when the loop gives up, and when round \<open>j\<close> is the first healthy one.\<close>

lemma exchange_unavailable:
  assumes "\<not> isConn x"
    and "\<forall>i<10. \<not> healthy (outcome (head E (heads w + i) (healthURL x)))"
  shows "fst (exchange E x w url data) = Inl (errors_New ''timed out while waiting for llama.cpp'')"
    and "trace (snd (exchange E x w url data)) = trace w @ rounds x 0 10"
proof -
  from assms(2) have "\<forall>k. 0 + k < 10 \<longrightarrow> \<not> healthy (outcome (head E (heads w + k) (healthURL x)))"
    by simp
  then have r: "fst (awaitRounds E x 0 w) = Some (errors_New ''timed out while waiting for llama.cpp'')"
    "trace (snd (awaitRounds E x 0 w)) = trace w @ rounds x 0 10"
    using awaitRounds_unavailable [of 0 E w x] by simp_all
  with assms(1) show "fst (exchange E x w url data)
      = Inl (errors_New ''timed out while waiting for llama.cpp'')"
    and "trace (snd (exchange E x w url data)) = trace w @ rounds x 0 10"
    by (simp_all add: exchange_refused awaitWorker_first)
qed

lemma exchange_available:
  assumes "\<not> isConn x" and "j < 10"
    and "\<forall>i<j. \<not> healthy (outcome (head E (heads w + i) (healthURL x)))"
    and "healthy (outcome (head E (heads w + j) (healthURL x)))"
    and "Marshal E data = Inr b" and "urlError E url = None"
  shows "trace (snd (exchange E x w url data)) = trace w @ rounds x 0 (Suc j) @ [PostRequest url b]"
proof -
  from assms(2-4) have r: "fst (awaitRounds E x 0 w) = None"
    "trace (snd (awaitRounds E x 0 w)) = trace w @ rounds x 0 (Suc (0 + j))"
    using awaitRounds_available [of 0 j E w x] by simp_all
  with assms(1,5,6) show ?thesis
    by (simp add: exchange_admitted awaitWorker_first postJSON_sent)
qed

subsection \<open>Example runs of the calls\<close>

lemmas call_run = Chat_def Complete_def awaitWorker_def awaitRounds.simps postJSON_def Marshal_def
  Unmarshal_def ReadAll_def NewRequest_def Do_def chatURL_def completionURL_def chatData_def
  completionData_def chatContent_def completionContent_def TrimSpace_def whiteSpace_def
  chatReply_def chatDocument_def completionReply_def completionDocument_def messages0_def
  duration_defs example_defs

lemma example_exchange:
  "exchange (exampleEnv (upAfter 0) body doc) handle0 world0 url
     (chatData messages0 (if (0::int) \<le> 0 then 150 else 0))
   = (Inr body,
      \<lparr>clock = 0, heads = 1, posts = 1,
       trace = [Slept 0, HeadRequest ''http://127.0.0.1:8080/health'',
                PostRequest url ''limit=150'']\<rparr>)"
  "exchange (exampleEnv (upAfter 0) body doc) handle0 world0 url
     (completionData ''2+2='' (if (0::int) \<le> 0 then 150 else 0))
   = (Inr body,
      \<lparr>clock = 0, heads = 1, posts = 1,
       trace = [Slept 0, HeadRequest ''http://127.0.0.1:8080/health'',
                PostRequest url ''limit=150'']\<rparr>)"
  by (simp_all add: exchange_def call_run)

lemma example_decode:
  "take 1 body = ''{'' \<Longrightarrow> Unmarshal (exampleEnv (upAfter 0) body doc) body = Inr doc"
  by (simp add: Unmarshal_def exampleEnv_def)

text \<open>
  C2. A call of \<open>Chat\<close> or \<open>Complete\<close> on a handle whose \<open>isConn\<close> is false runs the
  readiness loop first: up to ten health requests, request \<open>i\<close> (from 0 to 9) after a
  sleep of \<open>i\<close> seconds, which is 45 seconds of sleep when all ten are made. When none
  of the ten gets a healthy answer the call returns the error
  \<open>timed out while waiting for llama.cpp\<close> (the specification's WorkerUnavailable) and
  has sent the ten health requests and no POST. When request \<open>j\<close> is the first with a
  healthy answer (no error, status below 500) the loop stops there and the request is
  posted; this needs the request to be built, that is the payload encoded and the
  address parsed.
\<close>

theorem first_call_readiness_loop:
  "\<not> isConn x \<longrightarrow>
    ((\<forall>i<10. \<not> healthy (outcome (head E (heads w + i) (healthURL x)))) \<longrightarrow>
       fst (Chat E x w messages maxTokens)
         = Inl (errors_New ''timed out while waiting for llama.cpp'') \<and>
       trace (snd (snd (Chat E x w messages maxTokens))) = trace w @ rounds x 0 10 \<and>
       fst (Complete E x w prompt maxTokens)
         = Inl (errors_New ''timed out while waiting for llama.cpp'') \<and>
       trace (snd (snd (Complete E x w prompt maxTokens))) = trace w @ rounds x 0 10) \<and>
    (j < 10 \<and> (\<forall>i<j. \<not> healthy (outcome (head E (heads w + i) (healthURL x)))) \<and>
     healthy (outcome (head E (heads w + j) (healthURL x))) \<longrightarrow>
       (Marshal E (chatData messages (if maxTokens \<le> 0 then 150 else maxTokens)) = Inr b \<and>
        urlError E (chatURL x) = None \<longrightarrow>
          trace (snd (snd (Chat E x w messages maxTokens)))
            = trace w @ rounds x 0 (Suc j) @ [PostRequest (chatURL x) b]) \<and>
       (Marshal E (completionData prompt (if maxTokens \<le> 0 then 150 else maxTokens)) = Inr c \<and>
        urlError E (completionURL x) = None \<longrightarrow>
          trace (snd (snd (Complete E x w prompt maxTokens)))
            = trace w @ rounds x 0 (Suc j) @ [PostRequest (completionURL x) c])) \<and>
    rounds x 0 10 =
     [Slept (Second * 0), HeadRequest (healthURL x), Slept (Second * 1), HeadRequest (healthURL x),
      Slept (Second * 2), HeadRequest (healthURL x), Slept (Second * 3), HeadRequest (healthURL x),
      Slept (Second * 4), HeadRequest (healthURL x), Slept (Second * 5), HeadRequest (healthURL x),
      Slept (Second * 6), HeadRequest (healthURL x), Slept (Second * 7), HeadRequest (healthURL x),
      Slept (Second * 8), HeadRequest (healthURL x), Slept (Second * 9), HeadRequest (healthURL x)] \<and>
    sum_list (map slept (rounds x 0 10)) = 45 * Second \<and>
    (\<forall>e\<in>set (rounds x 0 (Suc j)). \<not> isPost e)"
proof (intro impI conjI)
  assume nc: "\<not> isConn x"
  {
    assume down: "\<forall>i<10. \<not> healthy (outcome (head E (heads w + i) (healthURL x)))"
    note u = exchange_unavailable [OF nc down]
    show "fst (Chat E x w messages maxTokens)
        = Inl (errors_New ''timed out while waiting for llama.cpp'')"
      using u(1) [of "chatURL x" "chatData messages (if maxTokens \<le> 0 then 150 else maxTokens)"]
      by (cases rule: Chat_cases [of E x w messages maxTokens]) simp_all
    show "trace (snd (snd (Chat E x w messages maxTokens))) = trace w @ rounds x 0 10"
      by (simp only: Chat_world u(2))
    show "fst (Complete E x w prompt maxTokens)
        = Inl (errors_New ''timed out while waiting for llama.cpp'')"
      using u(1) [of "completionURL x"
          "completionData prompt (if maxTokens \<le> 0 then 150 else maxTokens)"]
      by (cases rule: Complete_cases [of E x w prompt maxTokens]) simp_all
    show "trace (snd (snd (Complete E x w prompt maxTokens))) = trace w @ rounds x 0 10"
      by (simp only: Complete_world u(2))
  }
  {
    assume up: "j < 10 \<and> (\<forall>i<j. \<not> healthy (outcome (head E (heads w + i) (healthURL x)))) \<and>
      healthy (outcome (head E (heads w + j) (healthURL x)))"
    show "trace (snd (snd (Chat E x w messages maxTokens)))
        = trace w @ rounds x 0 (Suc j) @ [PostRequest (chatURL x) b]"
      if "Marshal E (chatData messages (if maxTokens \<le> 0 then 150 else maxTokens)) = Inr b \<and>
        urlError E (chatURL x) = None"
      using nc up that unfolding Chat_world by (intro exchange_available) simp_all
    show "trace (snd (snd (Complete E x w prompt maxTokens)))
        = trace w @ rounds x 0 (Suc j) @ [PostRequest (completionURL x) c]"
      if "Marshal E (completionData prompt (if maxTokens \<le> 0 then 150 else maxTokens)) = Inr c \<and>
        urlError E (completionURL x) = None"
      using nc up that unfolding Complete_world by (intro exchange_available) simp_all
  }
  show "rounds x 0 10 =
     [Slept (Second * 0), HeadRequest (healthURL x), Slept (Second * 1), HeadRequest (healthURL x),
      Slept (Second * 2), HeadRequest (healthURL x), Slept (Second * 3), HeadRequest (healthURL x),
      Slept (Second * 4), HeadRequest (healthURL x), Slept (Second * 5), HeadRequest (healthURL x),
      Slept (Second * 6), HeadRequest (healthURL x), Slept (Second * 7), HeadRequest (healthURL x),
      Slept (Second * 8), HeadRequest (healthURL x), Slept (Second * 9), HeadRequest (healthURL x)]"
    by (rule rounds_ten)
  show "sum_list (map slept (rounds x 0 10)) = 45 * Second"
    by (rule rounds_slept)
  show "\<forall>e\<in>set (rounds x 0 (Suc j)). \<not> isPost e"
    by (rule rounds_no_post)
qed

text \<open>
  A worker that never comes up, and one that is up from the third health request on,
  each called once with \<open>Chat\<close> and once with \<open>Complete\<close> on a fresh handle.
\<close>

theorem first_call_readiness_loop_witness:
  "fst (Chat (exampleEnv (upAfter 20) [] []) handle0 world0 messages0 0)
     = Inl (errors_New ''timed out while waiting for llama.cpp'') \<and>
   trace (snd (snd (Chat (exampleEnv (upAfter 20) [] []) handle0 world0 messages0 0)))
     = trace world0 @ rounds handle0 0 10 \<and>
   fst (Complete (exampleEnv (upAfter 20) [] []) handle0 world0 ''2+2='' 0)
     = Inl (errors_New ''timed out while waiting for llama.cpp'') \<and>
   trace (snd (snd (Complete (exampleEnv (upAfter 20) [] []) handle0 world0 ''2+2='' 0)))
     = trace world0 @ rounds handle0 0 10 \<and>
   trace (snd (snd (Chat (exampleEnv (upAfter 2) chatReply chatDocument) handle0 world0
       messages0 0)))
     = trace world0 @ rounds handle0 0 3 @ [PostRequest (chatURL handle0) ''limit=150''] \<and>
   trace (snd (snd (Complete (exampleEnv (upAfter 2) completionReply completionDocument)
       handle0 world0 ''2+2='' 0)))
     = trace world0 @ rounds handle0 0 3 @ [PostRequest (completionURL handle0) ''limit=150''] \<and>
   sum_list (map slept (rounds handle0 0 10)) = 45 * Second"
proof -
  have nc: "\<not> isConn handle0"
    by (simp add: handle0_def newHandle_def)
  have down: "\<forall>i<10. \<not> healthy (outcome (head (exampleEnv (upAfter 20) [] [])
      (heads world0 + i) (healthURL handle0)))"
    by (simp add: example_defs)
  have up: "(2::nat) < 10 \<and>
      (\<forall>i<2. \<not> healthy (outcome (head (exampleEnv (upAfter 2) body doc)
         (heads world0 + i) (healthURL handle0)))) \<and>
      healthy (outcome (head (exampleEnv (upAfter 2) body doc)
         (heads world0 + 2) (healthURL handle0)))" for body doc
    by (simp add: example_defs)
  have enc: "Marshal (exampleEnv (upAfter 2) body doc)
        (chatData messages0 (if (0::int) \<le> 0 then 150 else 0)) = Inr ''limit=150'' \<and>
      urlError (exampleEnv (upAfter 2) body doc) (chatURL handle0) = None"
    "Marshal (exampleEnv (upAfter 2) body doc)
        (completionData ''2+2='' (if (0::int) \<le> 0 then 150 else 0)) = Inr ''limit=150'' \<and>
      urlError (exampleEnv (upAfter 2) body doc) (completionURL handle0) = None" for body doc
    by (simp_all add: Marshal_def exampleEnv_def chatData_def completionData_def)
  note d = first_call_readiness_loop [of handle0 "exampleEnv (upAfter 20) [] []" world0
      messages0 0 "''2+2=''" 2 "''limit=150''" "''limit=150''", THEN mp, OF nc,
      THEN conjunct1, THEN mp, OF down]
  note u = first_call_readiness_loop [of handle0 "exampleEnv (upAfter 2) chatReply chatDocument"
      world0 messages0 0 "''2+2=''" 2 "''limit=150''" "''limit=150''", THEN mp, OF nc,
      THEN conjunct2, THEN conjunct1, THEN mp, OF up, THEN conjunct1, THEN mp, OF enc(1)]
  note v = first_call_readiness_loop [of handle0
      "exampleEnv (upAfter 2) completionReply completionDocument"
      world0 messages0 0 "''2+2=''" 2 "''limit=150''" "''limit=150''", THEN mp, OF nc,
      THEN conjunct2, THEN conjunct1, THEN mp, OF up, THEN conjunct2, THEN mp, OF enc(2)]
  have s: "sum_list (map slept (rounds handle0 0 10)) = 45 * Second"
    by (rule rounds_slept)
  from d u v s show ?thesis
    by (simp only: numeral_3_eq_3 eval_nat_numeral)
qed

text \<open>The trace of an exchange: whatever it posts is the encoding of its payload.\<close>

lemma exchange_trace:
  "\<exists>evs. trace (snd (exchange E x w url data)) = trace w @ evs \<and>
     (\<forall>u b. PostRequest u b \<in> set evs \<longrightarrow> u = url \<and> Marshal E data = Inr b)"
proof -
  obtain evs where evs: "trace (snd (awaitWorker E x w)) = trace w @ evs"
    "\<forall>e\<in>set evs. \<not> isPost e"
    using awaitWorker_trace [of E x w] by blast
  have np: "PostRequest u b \<notin> set evs" for u b
    using evs(2) by force
  show ?thesis
  proof (cases "fst (awaitWorker E x w)")
    case (Some err)
    then have "trace (snd (exchange E x w url data)) = trace w @ evs"
      by (simp add: exchange_refused evs(1))
    with np show ?thesis by blast
  next
    case None
    let ?sent = "(case Marshal E data of
                  Inl err \<Rightarrow> []
                | Inr b \<Rightarrow> (case urlError E url of Some msg \<Rightarrow> [] | None \<Rightarrow> [PostRequest url b]))"
    have "trace (snd (exchange E x w url data)) = trace w @ (evs @ ?sent)"
      using None by (simp add: exchange_admitted postJSON_trace evs(1))
    moreover have "u = url \<and> Marshal E data = Inr b" if "PostRequest u b \<in> set (evs @ ?sent)" for u b
      using that np by (auto split: sum.splits option.splits)
    ultimately show ?thesis by blast
  qed
qed

lemma exchange_connected:
  "isConn x \<Longrightarrow> exchange E x w url data = postJSON E url data w"
  by (simp add: exchange_def awaitWorker_connected)

text \<open>
  C8. Whatever a call of \<open>Chat\<close> posts is the encoding of a payload whose \<open>max_tokens\<close>
  is 150 when the \<open>maxTokens\<close> argument is zero or negative, and the argument itself
  when it is positive; and so for \<open>Complete\<close> and \<open>n_predict\<close>.
\<close>

theorem token_limit_field:
  "(\<exists>evs. trace (snd (snd (Chat E x w messages maxTokens))) = trace w @ evs \<and>
      (\<forall>url b. PostRequest url b \<in> set evs \<longrightarrow>
         url = chatURL x \<and>
         Marshal E (chatData messages (if maxTokens \<le> 0 then 150 else maxTokens)) = Inr b)) \<and>
   map_of (chatData messages (if maxTokens \<le> 0 then 150 else maxTokens)) ''max_tokens''
     = Some (IntValue (if maxTokens \<le> 0 then 150 else maxTokens)) \<and>
   (\<exists>evs. trace (snd (snd (Complete E x w prompt maxTokens))) = trace w @ evs \<and>
      (\<forall>url b. PostRequest url b \<in> set evs \<longrightarrow>
         url = completionURL x \<and>
         Marshal E (completionData prompt (if maxTokens \<le> 0 then 150 else maxTokens)) = Inr b)) \<and>
   map_of (completionData prompt (if maxTokens \<le> 0 then 150 else maxTokens)) ''n_predict''
     = Some (IntValue (if maxTokens \<le> 0 then 150 else maxTokens))"
proof (intro conjI)
  show "\<exists>evs. trace (snd (snd (Chat E x w messages maxTokens))) = trace w @ evs \<and>
      (\<forall>url b. PostRequest url b \<in> set evs \<longrightarrow>
         url = chatURL x \<and>
         Marshal E (chatData messages (if maxTokens \<le> 0 then 150 else maxTokens)) = Inr b)"
    unfolding Chat_world by (rule exchange_trace)
  show "\<exists>evs. trace (snd (snd (Complete E x w prompt maxTokens))) = trace w @ evs \<and>
      (\<forall>url b. PostRequest url b \<in> set evs \<longrightarrow>
         url = completionURL x \<and>
         Marshal E (completionData prompt (if maxTokens \<le> 0 then 150 else maxTokens)) = Inr b)"
    unfolding Complete_world by (rule exchange_trace)
qed (simp_all add: chatData_def completionData_def)

text \<open>
  A call with no token limit given and one with a limit of 7, against a worker that is
  up: the first posts the encoding of a payload with a limit of 150, the second that of
  one with a limit of 7.
\<close>

theorem token_limit_field_witness:
  "trace (snd (snd (Chat (exampleEnv (upAfter 0) chatReply chatDocument) handle0 world0
       messages0 0)))
     = [Slept 0, HeadRequest ''http://127.0.0.1:8080/health'',
        PostRequest ''http://127.0.0.1:8080/v1/chat/completions'' ''limit=150''] \<and>
   Marshal (exampleEnv (upAfter 0) chatReply chatDocument) (chatData messages0 150)
     = Inr ''limit=150'' \<and>
   map_of (chatData messages0 150) ''max_tokens'' = Some (IntValue 150) \<and>
   trace (snd (snd (Complete (exampleEnv (upAfter 0) completionReply completionDocument)
       handle0 world0 ''2+2='' 7)))
     = [Slept 0, HeadRequest ''http://127.0.0.1:8080/health'',
        PostRequest ''http://127.0.0.1:8080/completion'' ''limit''] \<and>
   Marshal (exampleEnv (upAfter 0) completionReply completionDocument)
       (completionData ''2+2='' 7)
     = Inr ''limit'' \<and>
   map_of (completionData ''2+2='' 7) ''n_predict'' = Some (IntValue 7)"
proof -
  let ?E = "exampleEnv (upAfter 0) chatReply chatDocument"
  let ?F = "exampleEnv (upAfter 0) completionReply completionDocument"
  have a: "trace (snd (snd (Chat ?E handle0 world0 messages0 0)))
     = [Slept 0, HeadRequest ''http://127.0.0.1:8080/health'',
        PostRequest ''http://127.0.0.1:8080/v1/chat/completions'' ''limit=150'']"
    by (simp add: call_run)
  have b: "trace (snd (snd (Complete ?F handle0 world0 ''2+2='' 7)))
     = [Slept 0, HeadRequest ''http://127.0.0.1:8080/health'',
        PostRequest ''http://127.0.0.1:8080/completion'' ''limit'']"
    by (simp add: call_run)
  note t = token_limit_field [of ?E handle0 world0 messages0 0 "''2+2=''"]
  note t' = token_limit_field [of ?F handle0 world0 messages0 7 "''2+2=''"]
  from t [THEN conjunct1] obtain evs where
    evs: "trace (snd (snd (Chat ?E handle0 world0 messages0 0))) = trace world0 @ evs"
      "\<forall>url b. PostRequest url b \<in> set evs \<longrightarrow> url = chatURL handle0 \<and>
         Marshal ?E (chatData messages0 (if (0::int) \<le> 0 then 150 else 0)) = Inr b"
    by blast
  from evs(1) a have "PostRequest ''http://127.0.0.1:8080/v1/chat/completions'' ''limit=150''
      \<in> set evs"
    by (simp add: world0_def)
  with evs(2) have c: "Marshal ?E (chatData messages0 150) = Inr ''limit=150''"
    by fastforce
  from t' [THEN conjunct2, THEN conjunct2, THEN conjunct1] obtain evs' where
    evs': "trace (snd (snd (Complete ?F handle0 world0 ''2+2='' 7))) = trace world0 @ evs'"
      "\<forall>url b. PostRequest url b \<in> set evs' \<longrightarrow> url = completionURL handle0 \<and>
         Marshal ?F (completionData ''2+2='' (if (7::int) \<le> 0 then 150 else 7)) = Inr b"
    by blast
  from evs'(1) b have "PostRequest ''http://127.0.0.1:8080/completion'' ''limit'' \<in> set evs'"
    by (simp add: world0_def)
  with evs'(2) have d: "Marshal ?F (completionData ''2+2='' 7) = Inr ''limit''"
    by fastforce
  have e: "map_of (chatData messages0 150) ''max_tokens'' = Some (IntValue 150)"
    using t [THEN conjunct2, THEN conjunct1] by simp
  have f: "map_of (completionData ''2+2='' 7) ''n_predict'' = Some (IntValue 7)"
    using t' [THEN conjunct2, THEN conjunct2, THEN conjunct2] by simp
  from a b c d e f show ?thesis
    by (intro conjI)
qed

text \<open>
  C3. A handle starts with \<open>isConn\<close> false, and no call on it sets \<open>isConn\<close> back to
  false: once true, it is true after every call and after every sequence of calls. A
  call of \<open>Chat\<close> or \<open>Complete\<close> that returns a result leaves it true, and so it stays
  for whatever is called on the handle later. On a handle whose \<open>isConn\<close> is true,
  \<open>Chat\<close> and \<open>Complete\<close> skip the readiness loop: they send no health request, and the
  world they leave is the one the request alone leaves.
\<close>

theorem isConn_monotonic:
  "\<not> isConn (newHandle p) \<and>
   (isConn x \<longrightarrow> isConn (fst (perform E c (x, w)))) \<and>
   (isConn x \<longrightarrow> isConn (fst (fold (perform E) calls (x, w)))) \<and>
   (fst (Chat E x w messages maxTokens) = Inr answer \<longrightarrow>
      isConn (fst (snd (Chat E x w messages maxTokens))) \<and>
      isConn (fst (fold (perform E) calls (snd (Chat E x w messages maxTokens))))) \<and>
   (fst (Complete E x w prompt maxTokens) = Inr answer \<longrightarrow>
      isConn (fst (snd (Complete E x w prompt maxTokens))) \<and>
      isConn (fst (fold (perform E) calls (snd (Complete E x w prompt maxTokens))))) \<and>
   (isConn x \<longrightarrow>
      awaitWorker E x w = (None, w) \<and>
      snd (snd (Chat E x w messages maxTokens))
        = snd (postJSON E (chatURL x)
            (chatData messages (if maxTokens \<le> 0 then 150 else maxTokens)) w) \<and>
      heads (snd (snd (Chat E x w messages maxTokens))) = heads w \<and>
      snd (snd (Complete E x w prompt maxTokens))
        = snd (postJSON E (completionURL x)
            (completionData prompt (if maxTokens \<le> 0 then 150 else maxTokens)) w) \<and>
      heads (snd (snd (Complete E x w prompt maxTokens))) = heads w)"
proof (intro conjI impI)
  show "\<not> isConn (newHandle p)"
    by (simp add: newHandle_def)
  show "isConn (fst (perform E c (x, w)))" if "isConn x"
    using that by (simp add: perform_isConn)
  show "isConn (fst (fold (perform E) calls (x, w)))" if "isConn x"
    using that by (simp add: fold_perform_isConn)
  show "isConn (fst (snd (Chat E x w messages maxTokens)))"
    if "fst (Chat E x w messages maxTokens) = Inr answer"
    using that by (rule Chat_success_isConn)
  then show "isConn (fst (fold (perform E) calls (snd (Chat E x w messages maxTokens))))"
    if "fst (Chat E x w messages maxTokens) = Inr answer"
    using that by (simp add: fold_perform_isConn)
  show "isConn (fst (snd (Complete E x w prompt maxTokens)))"
    if "fst (Complete E x w prompt maxTokens) = Inr answer"
    using that by (rule Complete_success_isConn)
  then show "isConn (fst (fold (perform E) calls (snd (Complete E x w prompt maxTokens))))"
    if "fst (Complete E x w prompt maxTokens) = Inr answer"
    using that by (simp add: fold_perform_isConn)
  show "awaitWorker E x w = (None, w)" if "isConn x"
    using that by (rule awaitWorker_connected)
  show "snd (snd (Chat E x w messages maxTokens))
        = snd (postJSON E (chatURL x)
            (chatData messages (if maxTokens \<le> 0 then 150 else maxTokens)) w)"
    if "isConn x"
    using that by (simp add: Chat_world exchange_connected)
  show "heads (snd (snd (Chat E x w messages maxTokens))) = heads w" if "isConn x"
    using that by (simp add: Chat_world exchange_connected postJSON_heads)
  show "snd (snd (Complete E x w prompt maxTokens))
        = snd (postJSON E (completionURL x)
            (completionData prompt (if maxTokens \<le> 0 then 150 else maxTokens)) w)"
    if "isConn x"
    using that by (simp add: Complete_world exchange_connected)
  show "heads (snd (snd (Complete E x w prompt maxTokens))) = heads w" if "isConn x"
    using that by (simp add: Complete_world exchange_connected postJSON_heads)
qed

text \<open>
  A first \<open>Chat\<close> that succeeds, followed by a \<open>Close\<close> and a \<open>Complete\<close>; and a call of
  each kind on a handle that is connected already.
\<close>

theorem isConn_monotonic_witness:
  "\<not> isConn (newHandle ''8080'') \<and>
   fst (Chat (exampleEnv (upAfter 0) chatReply chatDocument) handle0 world0 messages0 0)
     = Inr ''hi there'' \<and>
   isConn (fst (snd (Chat (exampleEnv (upAfter 0) chatReply chatDocument) handle0 world0
     messages0 0))) \<and>
   isConn (fst (fold (perform (exampleEnv (upAfter 0) chatReply chatDocument))
     [CallClose, CallComplete ''2+2='' 0, CallWaitUntilLoaded 0]
     (snd (Chat (exampleEnv (upAfter 0) chatReply chatDocument) handle0 world0 messages0 0)))) \<and>
   fst (Complete (exampleEnv (upAfter 0) completionReply completionDocument) handle0 world0
       ''2+2='' 0)
     = Inr ''4'' \<and>
   isConn (fst (snd (Complete (exampleEnv (upAfter 0) completionReply completionDocument)
     handle0 world0 ''2+2='' 0))) \<and>
   isConn (handle0\<lparr>isConn := True\<rparr>) \<and>
   isConn (fst (perform (exampleEnv (upAfter 20) [] []) CallClose
     (handle0\<lparr>isConn := True\<rparr>, world0))) \<and>
   awaitWorker (exampleEnv (upAfter 20) [] []) (handle0\<lparr>isConn := True\<rparr>) world0
     = (None, world0) \<and>
   heads (snd (snd (Chat (exampleEnv (upAfter 20) [] []) (handle0\<lparr>isConn := True\<rparr>) world0
     messages0 0))) = 0 \<and>
   trace (snd (snd (Chat (exampleEnv (upAfter 20) [] []) (handle0\<lparr>isConn := True\<rparr>) world0
     messages0 0)))
     = [PostRequest ''http://127.0.0.1:8080/v1/chat/completions'' ''limit=150'']"
proof -
  let ?E = "exampleEnv (upAfter 0) chatReply chatDocument"
  let ?F = "exampleEnv (upAfter 0) completionReply completionDocument"
  let ?G = "exampleEnv (upAfter 20) [] []"
  let ?x = "handle0\<lparr>isConn := True\<rparr>"
  have a: "fst (Chat ?E handle0 world0 messages0 0) = Inr ''hi there''"
    by (simp add: call_run)
  have b: "fst (Complete ?F handle0 world0 ''2+2='' 0) = Inr ''4''"
    by (simp add: call_run)
  have c: "isConn ?x"
    by simp
  note t = isConn_monotonic [where x = handle0 and E = ?E and w = world0
      and calls = "[CallClose, CallComplete ''2+2='' 0, CallWaitUntilLoaded 0]"
      and messages = messages0 and maxTokens = 0 and answer = "''hi there''", THEN conjunct2]
  note t' = isConn_monotonic [where x = handle0 and E = ?F and w = world0 and calls = "[]"
      and maxTokens = 0 and answer = "''4''" and prompt = "''2+2=''", THEN conjunct2]
  note t'' = isConn_monotonic [where x = ?x and E = ?G and c = CallClose and w = world0
      and messages = messages0 and maxTokens = 0 and prompt = "''2+2=''", THEN conjunct2]
  note f = isConn_monotonic [where p = "''8080''", THEN conjunct1]
  note chat = t [THEN conjunct2, THEN conjunct2, THEN conjunct1, THEN mp, OF a]
  note compl = t' [THEN conjunct2, THEN conjunct2, THEN conjunct2, THEN conjunct1, THEN mp, OF b]
  note conn = t'' [THEN conjunct2, THEN conjunct2, THEN conjunct2, THEN conjunct2, THEN mp, OF c]
  have d: "heads (snd (snd (Chat ?G ?x world0 messages0 0))) = 0"
    using conn [THEN conjunct2, THEN conjunct2, THEN conjunct1] by (simp add: world0_def)
  have "trace (snd (snd (Chat ?G ?x world0 messages0 0)))
     = trace (snd (postJSON ?G (chatURL ?x)
         (chatData messages0 (if (0::int) \<le> 0 then 150 else 0)) world0))"
    by (simp only: conn [THEN conjunct2, THEN conjunct1])
  then have e: "trace (snd (snd (Chat ?G ?x world0 messages0 0)))
     = [PostRequest ''http://127.0.0.1:8080/v1/chat/completions'' ''limit=150'']"
    by (simp add: postJSON_trace Marshal_def exampleEnv_def chatData_def chatURL_def handle0_def
        newHandle_def world0_def)
  note f chat [THEN conjunct1] chat [THEN conjunct2] compl [THEN conjunct1]
    t'' [THEN conjunct1, THEN mp, OF c] conn [THEN conjunct1]
  with a b c d e show ?thesis
    by (intro conjI)
qed

subsection \<open>Reading the reply\<close>

lemma chatContent_shapes:
  "(map_of jsonData ''choices'' = Some (JArray (JObject choice # others)) \<and>
    map_of choice ''message'' = Some (JObject message) \<and>
    map_of message ''content'' = Some (JString content) \<longrightarrow>
      chatContent jsonData = Inr content) \<and>
   ((\<forall>choices. map_of jsonData ''choices'' \<noteq> Some (JArray choices)) \<longrightarrow>
      chatContent jsonData = Inl (errors_New ''json parsing failure, missing choices field'')) \<and>
   (map_of jsonData ''choices'' = Some (JArray []) \<longrightarrow>
      chatContent jsonData = Inl (errors_New ''json parsing failure, field choices is empty'')) \<and>
   (map_of jsonData ''choices'' = Some (JArray (first # others)) \<and>
    (\<forall>choice. first \<noteq> JObject choice) \<longrightarrow>
      chatContent jsonData = Inl (errors_New ''json parsing failure, failed to get choice'')) \<and>
   (map_of jsonData ''choices'' = Some (JArray (JObject choice # others)) \<and>
    (\<forall>message. map_of choice ''message'' \<noteq> Some (JObject message)) \<longrightarrow>
      chatContent jsonData = Inl (errors_New ''json parsing failure, missing message field'')) \<and>
   (map_of jsonData ''choices'' = Some (JArray (JObject choice # others)) \<and>
    map_of choice ''message'' = Some (JObject message) \<and>
    (\<forall>content. map_of message ''content'' \<noteq> Some (JString content)) \<longrightarrow>
      chatContent jsonData = Inl (errors_New ''json parsing failure, missing content field''))"
proof (intro conjI impI)
  show "chatContent jsonData = Inr content"
    if "map_of jsonData ''choices'' = Some (JArray (JObject choice # others)) \<and>
      map_of choice ''message'' = Some (JObject message) \<and>
      map_of message ''content'' = Some (JString content)"
    using that by (simp add: chatContent_def)
  show "chatContent jsonData = Inl (errors_New ''json parsing failure, missing choices field'')"
    if "\<forall>choices. map_of jsonData ''choices'' \<noteq> Some (JArray choices)"
  proof (cases "map_of jsonData ''choices''")
    case None
    then show ?thesis by (simp add: chatContent_def)
  next
    case (Some v)
    with that show ?thesis by (cases v) (simp_all add: chatContent_def)
  qed
  show "chatContent jsonData = Inl (errors_New ''json parsing failure, field choices is empty'')"
    if "map_of jsonData ''choices'' = Some (JArray [])"
    using that by (simp add: chatContent_def)
  show "chatContent jsonData = Inl (errors_New ''json parsing failure, failed to get choice'')"
    if "map_of jsonData ''choices'' = Some (JArray (first # others)) \<and>
      (\<forall>choice. first \<noteq> JObject choice)"
    using that by (cases first) (simp_all add: chatContent_def)
  show "chatContent jsonData = Inl (errors_New ''json parsing failure, missing message field'')"
    if a: "map_of jsonData ''choices'' = Some (JArray (JObject choice # others)) \<and>
      (\<forall>message. map_of choice ''message'' \<noteq> Some (JObject message))"
  proof (cases "map_of choice ''message''")
    case None
    with a show ?thesis by (simp add: chatContent_def)
  next
    case (Some v)
    with a show ?thesis by (cases v) (simp_all add: chatContent_def)
  qed
  show "chatContent jsonData = Inl (errors_New ''json parsing failure, missing content field'')"
    if a: "map_of jsonData ''choices'' = Some (JArray (JObject choice # others)) \<and>
      map_of choice ''message'' = Some (JObject message) \<and>
      (\<forall>content. map_of message ''content'' \<noteq> Some (JString content))"
  proof (cases "map_of message ''content''")
    case None
    with a show ?thesis by (simp add: chatContent_def)
  next
    case (Some v)
    with a show ?thesis by (cases v) (simp_all add: chatContent_def)
  qed
qed

lemma chatContent_result:
  assumes "chatContent jsonData = Inr s"
  shows "\<exists>choice others message.
     map_of jsonData ''choices'' = Some (JArray (JObject choice # others)) \<and>
     map_of choice ''message'' = Some (JObject message) \<and>
     map_of message ''content'' = Some (JString s)"
proof -
  from assms obtain choices where c: "map_of jsonData ''choices'' = Some (JArray choices)"
    by (auto simp: chatContent_def split: option.splits json.splits)
  with assms obtain first others where f: "choices = first # others"
    by (cases choices) (simp_all add: chatContent_def)
  with assms c obtain choice where o: "first = JObject choice"
    by (cases first) (simp_all add: chatContent_def)
  with assms c f obtain message where m: "map_of choice ''message'' = Some (JObject message)"
    by (auto simp: chatContent_def split: option.splits json.splits)
  with assms c f o have "map_of message ''content'' = Some (JString s)"
    by (auto simp: chatContent_def split: option.splits json.splits)
  with c f o m show ?thesis
    by blast
qed

lemma Chat_decoded:
  assumes "exchange E x w (chatURL x)
      (chatData messages (if maxTokens \<le> 0 then 150 else maxTokens)) = (Inr body, w')"
    and "take 1 body = ''{''"
    and "Unmarshal E body = Inr jsonData"
  shows "Chat E x w messages maxTokens =
    (case chatContent jsonData of
       Inl err \<Rightarrow> (Inl err, x, w')
     | Inr content \<Rightarrow> (Inr (TrimSpace content), x\<lparr>isConn := True\<rparr>, w'))"
proof -
  from assms(2) have "\<not> (length body > 0 \<and> body ! 0 \<noteq> CHR ''{'')"
    by (cases body) simp_all
  with assms(1,3) show ?thesis
    by (auto simp: Chat_exchange)
qed

text \<open>
  C4. Take a reply to \<open>Chat\<close> that is JSON: its first byte is \<open>{\<close>, and it decodes to a
  document. If the document has a \<open>choices\<close> list whose first element is an object with
  a \<open>message\<close> object with a string \<open>content\<close>, \<open>Chat\<close> returns that content without
  the white space around it (and sets \<open>isConn\<close>). Otherwise it returns an error that
  names what is missing (the specification's ResponseMalformed): no \<open>choices\<close> list, an
  empty one, a first choice that is no object, no \<open>message\<close> object in it, or no string
  \<open>content\<close> in that. The call never crashes, being a function with a value on every
  document, and whenever it returns a result the document has the shape above and the
  result is its trimmed content.
\<close>

theorem Chat_response_shape:
  "exchange E x w (chatURL x) (chatData messages (if maxTokens \<le> 0 then 150 else maxTokens))
     = (Inr body, w') \<and>
   take 1 body = ''{'' \<and> Unmarshal E body = Inr jsonData \<longrightarrow>
   (map_of jsonData ''choices'' = Some (JArray (JObject choice # others)) \<and>
    map_of choice ''message'' = Some (JObject message) \<and>
    map_of message ''content'' = Some (JString content) \<longrightarrow>
      Chat E x w messages maxTokens = (Inr (TrimSpace content), x\<lparr>isConn := True\<rparr>, w')) \<and>
   ((\<forall>choices. map_of jsonData ''choices'' \<noteq> Some (JArray choices)) \<longrightarrow>
      Chat E x w messages maxTokens
        = (Inl (errors_New ''json parsing failure, missing choices field''), x, w')) \<and>
   (map_of jsonData ''choices'' = Some (JArray []) \<longrightarrow>
      Chat E x w messages maxTokens
        = (Inl (errors_New ''json parsing failure, field choices is empty''), x, w')) \<and>
   (map_of jsonData ''choices'' = Some (JArray (first # others)) \<and>
    (\<forall>choice. first \<noteq> JObject choice) \<longrightarrow>
      Chat E x w messages maxTokens
        = (Inl (errors_New ''json parsing failure, failed to get choice''), x, w')) \<and>
   (map_of jsonData ''choices'' = Some (JArray (JObject choice # others)) \<and>
    (\<forall>message. map_of choice ''message'' \<noteq> Some (JObject message)) \<longrightarrow>
      Chat E x w messages maxTokens
        = (Inl (errors_New ''json parsing failure, missing message field''), x, w')) \<and>
   (map_of jsonData ''choices'' = Some (JArray (JObject choice # others)) \<and>
    map_of choice ''message'' = Some (JObject message) \<and>
    (\<forall>content. map_of message ''content'' \<noteq> Some (JString content)) \<longrightarrow>
      Chat E x w messages maxTokens
        = (Inl (errors_New ''json parsing failure, missing content field''), x, w')) \<and>
   (fst (Chat E x w messages maxTokens) = Inr s \<longrightarrow>
      (\<exists>choice others message content.
         map_of jsonData ''choices'' = Some (JArray (JObject choice # others)) \<and>
         map_of choice ''message'' = Some (JObject message) \<and>
         map_of message ''content'' = Some (JString content) \<and> s = TrimSpace content))"
proof (intro impI)
  assume a: "exchange E x w (chatURL x)
      (chatData messages (if maxTokens \<le> 0 then 150 else maxTokens)) = (Inr body, w') \<and>
    take 1 body = ''{'' \<and> Unmarshal E body = Inr jsonData"
  then have c: "Chat E x w messages maxTokens =
    (case chatContent jsonData of
       Inl err \<Rightarrow> (Inl err, x, w')
     | Inr content \<Rightarrow> (Inr (TrimSpace content), x\<lparr>isConn := True\<rparr>, w'))"
    using Chat_decoded [of E x w messages maxTokens body w' jsonData] by blast
  note shapes = chatContent_shapes [of jsonData choice others message content first]
  show "(map_of jsonData ''choices'' = Some (JArray (JObject choice # others)) \<and>
    map_of choice ''message'' = Some (JObject message) \<and>
    map_of message ''content'' = Some (JString content) \<longrightarrow>
      Chat E x w messages maxTokens = (Inr (TrimSpace content), x\<lparr>isConn := True\<rparr>, w')) \<and>
   ((\<forall>choices. map_of jsonData ''choices'' \<noteq> Some (JArray choices)) \<longrightarrow>
      Chat E x w messages maxTokens
        = (Inl (errors_New ''json parsing failure, missing choices field''), x, w')) \<and>
   (map_of jsonData ''choices'' = Some (JArray []) \<longrightarrow>
      Chat E x w messages maxTokens
        = (Inl (errors_New ''json parsing failure, field choices is empty''), x, w')) \<and>
   (map_of jsonData ''choices'' = Some (JArray (first # others)) \<and>
    (\<forall>choice. first \<noteq> JObject choice) \<longrightarrow>
      Chat E x w messages maxTokens
        = (Inl (errors_New ''json parsing failure, failed to get choice''), x, w')) \<and>
   (map_of jsonData ''choices'' = Some (JArray (JObject choice # others)) \<and>
    (\<forall>message. map_of choice ''message'' \<noteq> Some (JObject message)) \<longrightarrow>
      Chat E x w messages maxTokens
        = (Inl (errors_New ''json parsing failure, missing message field''), x, w')) \<and>
   (map_of jsonData ''choices'' = Some (JArray (JObject choice # others)) \<and>
    map_of choice ''message'' = Some (JObject message) \<and>
    (\<forall>content. map_of message ''content'' \<noteq> Some (JString content)) \<longrightarrow>
      Chat E x w messages maxTokens
        = (Inl (errors_New ''json parsing failure, missing content field''), x, w')) \<and>
   (fst (Chat E x w messages maxTokens) = Inr s \<longrightarrow>
      (\<exists>choice others message content.
         map_of jsonData ''choices'' = Some (JArray (JObject choice # others)) \<and>
         map_of choice ''message'' = Some (JObject message) \<and>
         map_of message ''content'' = Some (JString content) \<and> s = TrimSpace content))"
  proof (intro conjI impI)
    show "Chat E x w messages maxTokens = (Inr (TrimSpace content), x\<lparr>isConn := True\<rparr>, w')"
      if "map_of jsonData ''choices'' = Some (JArray (JObject choice # others)) \<and>
        map_of choice ''message'' = Some (JObject message) \<and>
        map_of message ''content'' = Some (JString content)"
      using that shapes [THEN conjunct1] by (simp add: c)
    show "Chat E x w messages maxTokens
        = (Inl (errors_New ''json parsing failure, missing choices field''), x, w')"
      if "\<forall>choices. map_of jsonData ''choices'' \<noteq> Some (JArray choices)"
      using that shapes [THEN conjunct2, THEN conjunct1] by (simp add: c)
    show "Chat E x w messages maxTokens
        = (Inl (errors_New ''json parsing failure, field choices is empty''), x, w')"
      if "map_of jsonData ''choices'' = Some (JArray [])"
      using that shapes [THEN conjunct2, THEN conjunct2, THEN conjunct1] by (simp add: c)
    show "Chat E x w messages maxTokens
        = (Inl (errors_New ''json parsing failure, failed to get choice''), x, w')"
      if "map_of jsonData ''choices'' = Some (JArray (first # others)) \<and>
        (\<forall>choice. first \<noteq> JObject choice)"
      using that shapes [THEN conjunct2, THEN conjunct2, THEN conjunct2, THEN conjunct1]
      by (simp add: c)
    show "Chat E x w messages maxTokens
        = (Inl (errors_New ''json parsing failure, missing message field''), x, w')"
      if "map_of jsonData ''choices'' = Some (JArray (JObject choice # others)) \<and>
        (\<forall>message. map_of choice ''message'' \<noteq> Some (JObject message))"
      using that
        shapes [THEN conjunct2, THEN conjunct2, THEN conjunct2, THEN conjunct2, THEN conjunct1]
      by (simp add: c)
    show "Chat E x w messages maxTokens
        = (Inl (errors_New ''json parsing failure, missing content field''), x, w')"
      if "map_of jsonData ''choices'' = Some (JArray (JObject choice # others)) \<and>
        map_of choice ''message'' = Some (JObject message) \<and>
        (\<forall>content. map_of message ''content'' \<noteq> Some (JString content))"
      using that
        shapes [THEN conjunct2, THEN conjunct2, THEN conjunct2, THEN conjunct2, THEN conjunct2]
      by (simp add: c)
    show "\<exists>choice others message content.
         map_of jsonData ''choices'' = Some (JArray (JObject choice # others)) \<and>
         map_of choice ''message'' = Some (JObject message) \<and>
         map_of message ''content'' = Some (JString content) \<and> s = TrimSpace content"
      if "fst (Chat E x w messages maxTokens) = Inr s"
    proof -
      from that c obtain content where "chatContent jsonData = Inr content"
        and "s = TrimSpace content"
        by (cases "chatContent jsonData") simp_all
      with chatContent_result [of jsonData content] show ?thesis
        by blast
    qed
  qed
qed

text \<open>
  Six replies to \<open>Chat\<close>, one of each shape; the first is the reply
  \<open>{"choices":[{"message":{"content":"  hi there  "}}]}\<close>, the third
  \<open>{"choices":[]}\<close>.
\<close>

theorem Chat_response_shape_witness:
  "take 1 chatReply = ''{'' \<and>
   Unmarshal (exampleEnv (upAfter 0) chatReply chatDocument) chatReply = Inr chatDocument \<and>
   fst (Chat (exampleEnv (upAfter 0) chatReply chatDocument) handle0 world0 messages0 0)
     = Inr ''hi there'' \<and>
   (\<exists>choice others message content.
      map_of chatDocument ''choices'' = Some (JArray (JObject choice # others)) \<and>
      map_of choice ''message'' = Some (JObject message) \<and>
      map_of message ''content'' = Some (JString content) \<and>
      ''hi there'' = TrimSpace content) \<and>
   fst (Chat (exampleEnv (upAfter 0) noChoicesReply [(''error'', JString ''busy'')])
       handle0 world0 messages0 0)
     = Inl (errors_New ''json parsing failure, missing choices field'') \<and>
   fst (Chat (exampleEnv (upAfter 0) emptyChoicesReply [(''choices'', JArray [])])
       handle0 world0 messages0 0)
     = Inl (errors_New ''json parsing failure, field choices is empty'') \<and>
   fst (Chat (exampleEnv (upAfter 0) badChoiceReply [(''choices'', JArray [JString ''stop''])])
       handle0 world0 messages0 0)
     = Inl (errors_New ''json parsing failure, failed to get choice'') \<and>
   fst (Chat (exampleEnv (upAfter 0) noMessageReply
         [(''choices'', JArray [JObject [(''index'', JNull)]])])
       handle0 world0 messages0 0)
     = Inl (errors_New ''json parsing failure, missing message field'') \<and>
   fst (Chat (exampleEnv (upAfter 0) noContentReply
         [(''choices'', JArray [JObject [(''message'', JObject [(''content'', JNull)])]])])
       handle0 world0 messages0 0)
     = Inl (errors_New ''json parsing failure, missing content field'')"
proof -
  have pre: "exchange (exampleEnv (upAfter 0) body doc) handle0 world0 (chatURL handle0)
       (chatData messages0 (if (0::int) \<le> 0 then 150 else 0))
     = (Inr body,
        \<lparr>clock = 0, heads = 1, posts = 1,
         trace = [Slept 0, HeadRequest ''http://127.0.0.1:8080/health'',
                  PostRequest (chatURL handle0) ''limit=150'']\<rparr>) \<and>
     take 1 body = ''{'' \<and> Unmarshal (exampleEnv (upAfter 0) body doc) body = Inr doc"
    if "take 1 body = ''{''" for body doc
    using that by (simp only: example_exchange example_decode)
  have b: "take 1 chatReply = ''{''" "take 1 noChoicesReply = ''{''"
    "take 1 emptyChoicesReply = ''{''" "take 1 badChoiceReply = ''{''"
    "take 1 noMessageReply = ''{''" "take 1 noContentReply = ''{''"
    by (simp_all add: chatReply_def noChoicesReply_def emptyChoicesReply_def badChoiceReply_def
        noMessageReply_def noContentReply_def)
  have 1: "Chat (exampleEnv (upAfter 0) chatReply chatDocument) handle0 world0 messages0 0
    = (Inr (TrimSpace ''  hi there  ''), handle0\<lparr>isConn := True\<rparr>,
        \<lparr>clock = 0, heads = 1, posts = 1,
         trace = [Slept 0, HeadRequest ''http://127.0.0.1:8080/health'',
                  PostRequest (chatURL handle0) ''limit=150'']\<rparr>)"
    by (rule Chat_response_shape [where
            choice = "[(''message'', JObject [(''content'', JString ''  hi there  '')])]"
            and others = "[]" and message = "[(''content'', JString ''  hi there  '')]",
          THEN mp, OF pre [OF b(1)], THEN conjunct1, THEN mp])
      (simp add: chatDocument_def)
  have 2: "Chat (exampleEnv (upAfter 0) noChoicesReply [(''error'', JString ''busy'')])
       handle0 world0 messages0 0
    = (Inl (errors_New ''json parsing failure, missing choices field''), handle0,
        \<lparr>clock = 0, heads = 1, posts = 1,
         trace = [Slept 0, HeadRequest ''http://127.0.0.1:8080/health'',
                  PostRequest (chatURL handle0) ''limit=150'']\<rparr>)"
    by (rule Chat_response_shape [THEN mp, OF pre [OF b(2)], THEN conjunct2, THEN conjunct1,
          THEN mp]) simp
  have 3: "Chat (exampleEnv (upAfter 0) emptyChoicesReply [(''choices'', JArray [])])
       handle0 world0 messages0 0
    = (Inl (errors_New ''json parsing failure, field choices is empty''), handle0,
        \<lparr>clock = 0, heads = 1, posts = 1,
         trace = [Slept 0, HeadRequest ''http://127.0.0.1:8080/health'',
                  PostRequest (chatURL handle0) ''limit=150'']\<rparr>)"
    by (rule Chat_response_shape [THEN mp, OF pre [OF b(3)], THEN conjunct2, THEN conjunct2,
          THEN conjunct1, THEN mp]) simp
  have 4: "Chat (exampleEnv (upAfter 0) badChoiceReply [(''choices'', JArray [JString ''stop''])])
       handle0 world0 messages0 0
    = (Inl (errors_New ''json parsing failure, failed to get choice''), handle0,
        \<lparr>clock = 0, heads = 1, posts = 1,
         trace = [Slept 0, HeadRequest ''http://127.0.0.1:8080/health'',
                  PostRequest (chatURL handle0) ''limit=150'']\<rparr>)"
    by (rule Chat_response_shape [where first = "JString ''stop''" and others = "[]",
          THEN mp, OF pre [OF b(4)], THEN conjunct2, THEN conjunct2, THEN conjunct2,
          THEN conjunct1, THEN mp]) simp
  have 5: "Chat (exampleEnv (upAfter 0) noMessageReply
         [(''choices'', JArray [JObject [(''index'', JNull)]])])
       handle0 world0 messages0 0
    = (Inl (errors_New ''json parsing failure, missing message field''), handle0,
        \<lparr>clock = 0, heads = 1, posts = 1,
         trace = [Slept 0, HeadRequest ''http://127.0.0.1:8080/health'',
                  PostRequest (chatURL handle0) ''limit=150'']\<rparr>)"
    by (rule Chat_response_shape [where choice = "[(''index'', JNull)]" and others = "[]",
          THEN mp, OF pre [OF b(5)], THEN conjunct2, THEN conjunct2, THEN conjunct2,
          THEN conjunct2, THEN conjunct1, THEN mp]) simp
  have 6: "Chat (exampleEnv (upAfter 0) noContentReply
         [(''choices'', JArray [JObject [(''message'', JObject [(''content'', JNull)])]])])
       handle0 world0 messages0 0
    = (Inl (errors_New ''json parsing failure, missing content field''), handle0,
        \<lparr>clock = 0, heads = 1, posts = 1,
         trace = [Slept 0, HeadRequest ''http://127.0.0.1:8080/health'',
                  PostRequest (chatURL handle0) ''limit=150'']\<rparr>)"
    by (rule Chat_response_shape [where
            choice = "[(''message'', JObject [(''content'', JNull)])]" and others = "[]"
            and message = "[(''content'', JNull)]",
          THEN mp, OF pre [OF b(6)], THEN conjunct2, THEN conjunct2, THEN conjunct2,
          THEN conjunct2, THEN conjunct2, THEN conjunct1, THEN mp]) simp
  have trim: "TrimSpace ''  hi there  '' = ''hi there''"
    by (simp add: TrimSpace_def whiteSpace_def)
  have 7: "\<exists>choice others message content.
      map_of chatDocument ''choices'' = Some (JArray (JObject choice # others)) \<and>
      map_of choice ''message'' = Some (JObject message) \<and>
      map_of message ''content'' = Some (JString content) \<and>
      ''hi there'' = TrimSpace content"
    by (rule Chat_response_shape [THEN mp, OF pre [OF b(1)], THEN conjunct2, THEN conjunct2,
          THEN conjunct2, THEN conjunct2, THEN conjunct2, THEN conjunct2, THEN mp])
      (simp add: 1 trim)
  have 8: "fst (Chat (exampleEnv (upAfter 0) chatReply chatDocument) handle0 world0 messages0 0)
     = Inr ''hi there''"
    by (simp add: 1 trim)
  from b(1) example_decode [OF b(1), of chatDocument] 8 7 show ?thesis
    by (intro conjI) (simp_all add: 2 3 4 5 6)
qed

subsection \<open>A reply that is not JSON, and an empty one\<close>

lemma awaitRounds_decoder:
  "awaitRounds (E\<lparr>unmarshal := u\<rparr>) x i w = awaitRounds E x i w"
proof (induction i w rule: awaitRounds_cases [of _ E x])
  case (over i w)
  then show ?case by (simp add: awaitRounds_done)
next
  case (ready i w)
  then show ?case
    by (simp add: awaitRounds_healthy awaitRound_def Head_def)
next
  case (final w)
  then show ?case
    by (simp add: awaitRounds_last awaitRound_def Head_def)
next
  case (another i w)
  have "awaitRound (E\<lparr>unmarshal := u\<rparr>) x i w = awaitRound E x i w"
    by (simp add: awaitRound_def Head_def)
  with another show ?case
    by (simp add: awaitRounds_next)
qed

lemma postJSON_decoder:
  "postJSON (E\<lparr>unmarshal := u\<rparr>) url data w = postJSON E url data w"
  by (simp add: postJSON_def Marshal_def NewRequest_def Do_def
      split: sum.splits option.splits prod.splits)

lemma exchange_decoder:
  "exchange (E\<lparr>unmarshal := u\<rparr>) x w url data = exchange E x w url data"
  by (simp add: exchange_def awaitWorker_def awaitRounds_decoder postJSON_decoder
      split: prod.splits option.splits)

text \<open>
  C5. When the body of the reply is not empty and its first byte is not \<open>{\<close>, \<open>Chat\<close>
  and \<open>Complete\<close> return the error whose message is the body, byte for byte (the
  specification's RequestFailed). The decoder is not asked: the result is the same
  whatever \<open>json.Unmarshal\<close> would make of the body.
\<close>

theorem non_JSON_body_verbatim:
  "body \<noteq> [] \<and> hd body \<noteq> CHR ''{'' \<longrightarrow>
    (exchange E x w (chatURL x) (chatData messages (if maxTokens \<le> 0 then 150 else maxTokens))
       = (Inr body, w') \<longrightarrow>
     Chat E x w messages maxTokens = (Inl (errors_New body), x, w') \<and>
     Chat (E\<lparr>unmarshal := u\<rparr>) x w messages maxTokens = (Inl (errors_New body), x, w')) \<and>
    (exchange E x w (completionURL x)
         (completionData prompt (if maxTokens \<le> 0 then 150 else maxTokens))
       = (Inr body, w') \<longrightarrow>
     Complete E x w prompt maxTokens = (Inl (errors_New body), x, w') \<and>
     Complete (E\<lparr>unmarshal := u\<rparr>) x w prompt maxTokens = (Inl (errors_New body), x, w'))"
proof (intro impI conjI)
  assume "body \<noteq> [] \<and> hd body \<noteq> CHR ''{''"
  then have t: "length body > 0 \<and> body ! 0 \<noteq> CHR ''{''"
    by (cases body) simp_all
  show "Chat E x w messages maxTokens = (Inl (errors_New body), x, w')"
    if "exchange E x w (chatURL x)
        (chatData messages (if maxTokens \<le> 0 then 150 else maxTokens)) = (Inr body, w')"
    using that t by (simp add: Chat_exchange)
  show "Chat (E\<lparr>unmarshal := u\<rparr>) x w messages maxTokens = (Inl (errors_New body), x, w')"
    if "exchange E x w (chatURL x)
        (chatData messages (if maxTokens \<le> 0 then 150 else maxTokens)) = (Inr body, w')"
    using that t by (simp add: Chat_exchange exchange_decoder)
  show "Complete E x w prompt maxTokens = (Inl (errors_New body), x, w')"
    if "exchange E x w (completionURL x)
        (completionData prompt (if maxTokens \<le> 0 then 150 else maxTokens)) = (Inr body, w')"
    using that t by (simp add: Complete_exchange)
  show "Complete (E\<lparr>unmarshal := u\<rparr>) x w prompt maxTokens = (Inl (errors_New body), x, w')"
    if "exchange E x w (completionURL x)
        (completionData prompt (if maxTokens \<le> 0 then 150 else maxTokens)) = (Inr body, w')"
    using that t by (simp add: Complete_exchange exchange_decoder)
qed

text \<open>
  A worker that answers the request with the plain text \<open>engine crashed\<close>; the second
  decoder would read anything as an empty document, and is not asked.
\<close>

theorem non_JSON_body_verbatim_witness:
  "''engine crashed'' \<noteq> [] \<and> hd ''engine crashed'' \<noteq> CHR ''{'' \<and>
   Chat (exampleEnv (upAfter 0) ''engine crashed'' []) handle0 world0 messages0 0
     = (Inl (errors_New ''engine crashed''), handle0,
        \<lparr>clock = 0, heads = 1, posts = 1,
         trace = [Slept 0, HeadRequest ''http://127.0.0.1:8080/health'',
                  PostRequest (chatURL handle0) ''limit=150'']\<rparr>) \<and>
   Chat ((exampleEnv (upAfter 0) ''engine crashed'' [])\<lparr>unmarshal := (\<lambda>b. Inr [])\<rparr>)
       handle0 world0 messages0 0
     = (Inl (errors_New ''engine crashed''), handle0,
        \<lparr>clock = 0, heads = 1, posts = 1,
         trace = [Slept 0, HeadRequest ''http://127.0.0.1:8080/health'',
                  PostRequest (chatURL handle0) ''limit=150'']\<rparr>) \<and>
   Complete (exampleEnv (upAfter 0) ''engine crashed'' []) handle0 world0 ''2+2='' 0
     = (Inl (errors_New ''engine crashed''), handle0,
        \<lparr>clock = 0, heads = 1, posts = 1,
         trace = [Slept 0, HeadRequest ''http://127.0.0.1:8080/health'',
                  PostRequest (completionURL handle0) ''limit=150'']\<rparr>)"
proof -
  have a: "''engine crashed'' \<noteq> [] \<and> hd ''engine crashed'' \<noteq> CHR ''{''"
    by simp
  note t = non_JSON_body_verbatim [where x = handle0 and w = world0 and messages = messages0
      and maxTokens = 0 and prompt = "''2+2=''" and u = "\<lambda>b. Inr []", THEN mp, OF a]
  note c = t [THEN conjunct1, THEN mp, OF example_exchange(1)]
  note d = t [THEN conjunct2, THEN mp, OF example_exchange(2)]
  from a c [THEN conjunct1] c [THEN conjunct2] d [THEN conjunct1] show ?thesis
    by (intro conjI) simp_all
qed

text \<open>
  C9. An empty body does not take that path: the test on the first byte is guarded by
  the length, so the body goes to the decoder, and as \<open>json.Unmarshal\<close> rejects the
  empty input, \<open>Chat\<close> and \<open>Complete\<close> return its error, which is not the error
  carrying the (empty) body.
\<close>

theorem empty_body_decode_error:
  "unmarshal E [] = Inl msg \<longrightarrow>
    (exchange E x w (chatURL x) (chatData messages (if maxTokens \<le> 0 then 150 else maxTokens))
       = (Inr [], w') \<longrightarrow>
     Chat E x w messages maxTokens = (Inl (json_error msg), x, w') \<and>
     fst (Chat E x w messages maxTokens) \<noteq> Inl (errors_New [])) \<and>
    (exchange E x w (completionURL x)
         (completionData prompt (if maxTokens \<le> 0 then 150 else maxTokens))
       = (Inr [], w') \<longrightarrow>
     Complete E x w prompt maxTokens = (Inl (json_error msg), x, w') \<and>
     fst (Complete E x w prompt maxTokens) \<noteq> Inl (errors_New []))"
proof (intro impI conjI)
  assume "unmarshal E [] = Inl msg"
  then have d: "Unmarshal E [] = Inl (json_error msg)"
    by (simp add: Unmarshal_def)
  show c: "Chat E x w messages maxTokens = (Inl (json_error msg), x, w')"
    if "exchange E x w (chatURL x)
        (chatData messages (if maxTokens \<le> 0 then 150 else maxTokens)) = (Inr [], w')"
    using that d by (simp add: Chat_exchange)
  show "fst (Chat E x w messages maxTokens) \<noteq> Inl (errors_New [])"
    if "exchange E x w (chatURL x)
        (chatData messages (if maxTokens \<le> 0 then 150 else maxTokens)) = (Inr [], w')"
    using c [OF that] by simp
  show c': "Complete E x w prompt maxTokens = (Inl (json_error msg), x, w')"
    if "exchange E x w (completionURL x)
        (completionData prompt (if maxTokens \<le> 0 then 150 else maxTokens)) = (Inr [], w')"
    using that d by (simp add: Complete_exchange)
  show "fst (Complete E x w prompt maxTokens) \<noteq> Inl (errors_New [])"
    if "exchange E x w (completionURL x)
        (completionData prompt (if maxTokens \<le> 0 then 150 else maxTokens)) = (Inr [], w')"
    using c' [OF that] by simp
qed

text \<open>A worker that answers the request with an empty body.\<close>

theorem empty_body_decode_error_witness:
  "unmarshal (exampleEnv (upAfter 0) [] []) [] = Inl ''unexpected end of JSON input'' \<and>
   Chat (exampleEnv (upAfter 0) [] []) handle0 world0 messages0 0
     = (Inl (json_error ''unexpected end of JSON input''), handle0,
        \<lparr>clock = 0, heads = 1, posts = 1,
         trace = [Slept 0, HeadRequest ''http://127.0.0.1:8080/health'',
                  PostRequest (chatURL handle0) ''limit=150'']\<rparr>) \<and>
   fst (Chat (exampleEnv (upAfter 0) [] []) handle0 world0 messages0 0)
     \<noteq> Inl (errors_New []) \<and>
   Complete (exampleEnv (upAfter 0) [] []) handle0 world0 ''2+2='' 0
     = (Inl (json_error ''unexpected end of JSON input''), handle0,
        \<lparr>clock = 0, heads = 1, posts = 1,
         trace = [Slept 0, HeadRequest ''http://127.0.0.1:8080/health'',
                  PostRequest (completionURL handle0) ''limit=150'']\<rparr>) \<and>
   fst (Complete (exampleEnv (upAfter 0) [] []) handle0 world0 ''2+2='' 0)
     \<noteq> Inl (errors_New [])"
proof -
  have a: "unmarshal (exampleEnv (upAfter 0) [] []) [] = Inl ''unexpected end of JSON input''"
    by (simp add: exampleEnv_def)
  note t = empty_body_decode_error [where x = handle0 and w = world0 and messages = messages0
      and maxTokens = 0 and prompt = "''2+2=''", THEN mp, OF a]
  note c = t [THEN conjunct1, THEN mp, OF example_exchange(1)]
  note d = t [THEN conjunct2, THEN mp, OF example_exchange(2)]
  from a c [THEN conjunct1] c [THEN conjunct2] d [THEN conjunct1] d [THEN conjunct2]
  show ?thesis
    by (intro conjI)
qed

end
